theory Spec2Isabelle
  imports Complex_Main
begin

section \<open>Strings, bytes and paths\<close>

text \<open>
  Python \<open>str\<close> and \<open>bytes\<close> values are both modelled as lists of 8-bit characters
  (a \<open>str\<close> by its UTF-8 encoding). The characters the code treats specially
  (\<open>_\<close>, \<open>/\<close>, \<open>.\<close>, \<open>%\<close> and the hexadecimal digits) are ASCII, and an ASCII byte never
  occurs inside a multi-byte UTF-8 sequence.
\<close>

type_synonym bytes = string

text \<open>\<open>s.split(c)\<close>: the pieces of \<open>s\<close> between the occurrences of \<open>c\<close>; never empty.\<close>

fun split_on :: "char \<Rightarrow> string \<Rightarrow> string list" where
  "split_on c [] = [[]]"
| "split_on c (x # xs) =
     (if x = c then [] # split_on c xs
      else (case split_on c xs of [] \<Rightarrow> [[x]] | w # ws \<Rightarrow> (x # w) # ws))"

text \<open>
  A \<open>pathlib.PurePosixPath\<close>: its root (\<open>''''\<close>, \<open>/\<close> or \<open>//\<close>) and its parts, none of
  which is empty, is \<open>.\<close> or contains a slash.
\<close>

record path =
  p_root :: string
  p_parts :: "string list"

definition path_root_of :: "string \<Rightarrow> string" where
  "path_root_of s =
     (if take 2 s = ''//'' \<and> take 3 s \<noteq> ''///'' then ''//''
      else if take 1 s = ''/'' then ''/'' else '''')"

definition parse_path :: "string \<Rightarrow> path" where
  "parse_path s =
     \<lparr>p_root = path_root_of s,
      p_parts = filter (\<lambda>x. x \<noteq> '''' \<and> x \<noteq> ''.'') (split_on (CHR ''/'') s)\<rparr>"

text \<open>The operator \<open>/\<close> of a path and a string: a rooted right operand replaces the left one.\<close>

definition path_join :: "path \<Rightarrow> string \<Rightarrow> path" where
  "path_join p s =
     (let q = parse_path s
      in if p_root q \<noteq> '''' then q
         else \<lparr>p_root = p_root p, p_parts = p_parts p @ p_parts q\<rparr>)"

fun intercalate :: "string \<Rightarrow> string list \<Rightarrow> string" where
  "intercalate sep [] = ''''"
| "intercalate sep [x] = x"
| "intercalate sep (x # y # ys) = x @ sep @ intercalate sep (y # ys)"

text \<open>\<open>str(p)\<close> and \<open>p.name\<close>.\<close>

definition path_str :: "path \<Rightarrow> string" where
  "path_str p =
     (if p_root p = '''' \<and> p_parts p = [] then ''.''
      else p_root p @ intercalate ''/'' (p_parts p))"

definition path_name :: "path \<Rightarrow> string" where
  "path_name p = (if p_parts p = [] then '''' else last (p_parts p))"

section \<open>Exceptions and effects\<close>

text \<open>
  The exceptions the two modules can raise, with the names the specification gives them:
  \<open>FileNotFoundError\<close> (opening a missing file for reading) is \<open>ArtifactNotFound\<close>,
  \<open>KeyError\<close> (a filter missing from \<open>FHE_SERVERS\<close>) is \<open>UnknownFilter\<close>,
  \<open>OSError\<close> (the operating system refuses to open a file for writing) is
  \<open>StorageWriteError\<close>, \<open>AssertionError\<close> (the shape check) is \<open>InvalidImageShape\<close>,
  \<open>ComputeEngineError\<close> is any exception of \<open>FHEServer.run\<close>, \<open>RequestException\<close> any
  exception of \<open>requests\<close>, \<open>FHEClientError\<close> any exception of an \<open>FHEClient\<close> call and
  \<open>ImageError\<close> any exception of PIL or numpy.
\<close>

datatype error =
    FileNotFoundError
  | KeyError string
  | IndexError
  | OSError
  | ComputeEngineError
  | AssertionError "nat list"
  | ValueError
  | RequestException
  | FHEClientError
  | ImageError

text \<open>
  A statement sequence is a function from the world to an outcome and the world it
  leaves behind; an exception keeps what was written before it was raised.
\<close>

type_synonym ('w, 'a) prog = "'w \<Rightarrow> (error + 'a) \<times> 'w"

definition ret :: "'a \<Rightarrow> ('w, 'a) prog" where
  "ret x w = (Inr x, w)"

definition raise :: "error \<Rightarrow> ('w, 'a) prog" where
  "raise e w = (Inl e, w)"

definition bnd :: "('w, 'a) prog \<Rightarrow> ('a \<Rightarrow> ('w, 'b) prog) \<Rightarrow> ('w, 'b) prog" where
  "bnd m f w = (case m w of (Inl e, w') \<Rightarrow> (Inl e, w') | (Inr x, w') \<Rightarrow> f x w')"

text \<open>
  The world of a process: the files it can see, the paths the operating system lets it
  open for writing (the parent directory exists, the path is no directory, permissions),
  and the state \<open>ext\<close> of everything outside the program that answers its calls (the
  clock, the random source, the network, the key store of the FHE library).
\<close>

record 's world =
  files :: "path \<rightharpoonup> bytes"
  writable :: "path \<Rightarrow> bool"
  ext :: 's

text \<open>\<open>p.open("wb")\<close> truncates the file; \<open>p.open("rb")\<close> needs it to exist.\<close>

definition open_wb :: "path \<Rightarrow> (('s, 'm) world_scheme, unit) prog" where
  "open_wb p w =
     (if writable w p then (Inr (), w\<lparr>files := (files w)(p \<mapsto> [])\<rparr>) else (Inl OSError, w))"

definition write_file :: "path \<Rightarrow> bytes \<Rightarrow> (('s, 'm) world_scheme, unit) prog" where
  "write_file p b w = (Inr (), w\<lparr>files := (files w)(p \<mapsto> b)\<rparr>)"

definition open_rb :: "path \<Rightarrow> (('s, 'm) world_scheme, bytes) prog" where
  "open_rb p w = (case files w p of None \<Rightarrow> (Inl FileNotFoundError, w) | Some b \<Rightarrow> (Inr b, w))"

text \<open>\<open>xs[i]\<close> for a non-negative \<open>i\<close>.\<close>

definition index :: "'a list \<Rightarrow> nat \<Rightarrow> ('w, 'a) prog" where
  "index xs i w = (if i < length xs then (Inr (xs ! i), w) else (Inl IndexError, w))"

text \<open>A call answered from outside the program, which may change the outside.\<close>

definition ext_call :: "('s \<Rightarrow> 'a \<times> 's) \<Rightarrow> (('s, 'm) world_scheme, 'a) prog" where
  "ext_call f w = (case f (ext w) of (x, s') \<Rightarrow> (Inr x, w\<lparr>ext := s'\<rparr>))"

definition or_raise :: "error \<Rightarrow> 'a option \<Rightarrow> ('w, 'a) prog" where
  "or_raise e r w = (case r of None \<Rightarrow> (Inl e, w) | Some x \<Rightarrow> (Inr x, w))"

section \<open>The module common\<close>

text \<open>
  Both programs import their directories and the list of filter names from the module
  \<open>common\<close>, which is not part of the sources at hand: its values are parameters.
\<close>

record common =
  FILTERS_PATH :: path
  KEYS_PATH :: path
  SERVER_TMP_PATH :: path
  CLIENT_TMP_PATH :: path
  AVAILABLE_FILTERS :: "string list"

section \<open>The compute server (fhe_server.py)\<close>

text \<open>
  What the module imports besides \<open>common\<close>: the class \<open>FHEServer\<close> of
  \<open>client_server_interface\<close> (its constructor, applied to a deployment directory, gives
  the function \<open>run\<close>; \<open>None\<close> is an exception), and \<open>time.time\<close>.
  Python floats are modelled by the real numbers they denote; the floating-point
  operations \<open>round(t1 - t0, 2)\<close> and \<open>f"{t}"\<close> are taken from the environment.
\<close>

record 's server_env = common +
  FHEServer :: "path \<Rightarrow> bytes \<Rightarrow> bytes \<Rightarrow> bytes option"
  time_time :: "'s \<Rightarrow> real \<times> 's"
  round_elapsed :: "real \<Rightarrow> real \<Rightarrow> real"
  float_str :: "real \<Rightarrow> string"

text \<open>The dictionary comprehension that builds \<open>FHE_SERVERS\<close> at import time.\<close>

definition FHE_SERVERS :: "('s, 'm) server_env_scheme \<Rightarrow> (string \<rightharpoonup> (bytes \<Rightarrow> bytes \<Rightarrow> bytes option))" where
  "FHE_SERVERS env =
     foldl (\<lambda>m f. m(f \<mapsto> FHEServer env (path_join (FILTERS_PATH env) (f @ ''/deployment''))))
       Map.empty (AVAILABLE_FILTERS env)"

definition get_server_file_path :: "'m common_scheme \<Rightarrow> string \<Rightarrow> string \<Rightarrow> string \<Rightarrow> path" where
  "get_server_file_path env name user_id filter_name =
     path_join (SERVER_TMP_PATH env) (name @ ''_'' @ filter_name @ ''_'' @ user_id)"

definition send_input ::
  "('s, 'm) server_env_scheme \<Rightarrow> string \<Rightarrow> string \<Rightarrow> bytes list \<Rightarrow> ('s world, unit) prog" where
  "send_input env user_id filter_name upload =
     (let encrypted_image_path = get_server_file_path env ''encrypted_image'' user_id filter_name;
          evaluation_key_path = get_server_file_path env ''evaluation_key'' user_id filter_name
      in bnd (open_wb encrypted_image_path) (\<lambda>_.
         bnd (open_wb evaluation_key_path) (\<lambda>_.
         bnd (index upload 0) (\<lambda>b0.
         bnd (write_file encrypted_image_path b0) (\<lambda>_.
         bnd (index upload 1) (\<lambda>b1.
         write_file evaluation_key_path b1))))))"

definition run_fhe ::
  "('s, 'm) server_env_scheme \<Rightarrow> string \<Rightarrow> string \<Rightarrow> ('s world, real) prog" where
  "run_fhe env user_id filter_name =
     (let encrypted_image_path = get_server_file_path env ''encrypted_image'' user_id filter_name;
          evaluation_key_path = get_server_file_path env ''evaluation_key'' user_id filter_name
      in bnd (open_rb encrypted_image_path) (\<lambda>encrypted_image.
         bnd (open_rb evaluation_key_path) (\<lambda>evaluation_key.
         bnd (or_raise (KeyError filter_name) (FHE_SERVERS env filter_name)) (\<lambda>fhe_server.
         bnd (ext_call (time_time env)) (\<lambda>start.
         bnd (or_raise ComputeEngineError (fhe_server encrypted_image evaluation_key))
           (\<lambda>encrypted_output_image.
         bnd (ext_call (time_time env)) (\<lambda>now.
         (let fhe_execution_time = round_elapsed env now start;
              encrypted_output_path =
                get_server_file_path env ''encrypted_output'' user_id filter_name
          in bnd (open_wb encrypted_output_path) (\<lambda>_.
             bnd (write_file encrypted_output_path encrypted_output_image) (\<lambda>_.
             ret fhe_execution_time))))))))))"

definition get_output ::
  "('s, 'm) server_env_scheme \<Rightarrow> string \<Rightarrow> string \<Rightarrow> ('s world, bytes) prog" where
  "get_output env user_id filter_name =
     (let encrypted_output_path =
            get_server_file_path env ''encrypted_output'' user_id filter_name
      in open_rb encrypted_output_path)"

text \<open>The response of \<open>/fhe_full\<close>: its content and its headers.\<close>

definition fhe_full ::
  "('s, 'm) server_env_scheme \<Rightarrow> string \<Rightarrow> string \<Rightarrow> bytes list
     \<Rightarrow> ('s world, bytes \<times> (string \<times> string) list) prog" where
  "fhe_full env user_id filter_name upload =
     (let encrypted_image_path = get_server_file_path env ''encrypted_image'' user_id filter_name;
          evaluation_key_path = get_server_file_path env ''evaluation_key'' user_id filter_name
      in bnd (open_wb encrypted_image_path) (\<lambda>_.
         bnd (open_wb evaluation_key_path) (\<lambda>_.
         bnd (index upload 0) (\<lambda>b0.
         bnd (write_file encrypted_image_path b0) (\<lambda>_.
         bnd (index upload 1) (\<lambda>b1.
         bnd (write_file evaluation_key_path b1) (\<lambda>_.
         bnd (open_rb encrypted_image_path) (\<lambda>encrypted_image.
         bnd (open_rb evaluation_key_path) (\<lambda>evaluation_key.
         bnd (or_raise (KeyError filter_name) (FHE_SERVERS env filter_name)) (\<lambda>fhe_server.
         bnd (ext_call (time_time env)) (\<lambda>start.
         bnd (or_raise ComputeEngineError (fhe_server encrypted_image evaluation_key))
           (\<lambda>encrypted_output_image.
         bnd (ext_call (time_time env)) (\<lambda>now.
         (let fhe_execution_time = round_elapsed env now start;
              encrypted_output_path =
                get_server_file_path env ''encrypted_output'' user_id filter_name
          in bnd (open_wb encrypted_output_path) (\<lambda>_.
             bnd (write_file encrypted_output_path encrypted_output_image) (\<lambda>_.
             bnd (open_rb encrypted_output_path) (\<lambda>encrypted_output.
             ret (encrypted_output,
                  [(''X-FHE-Execution-Time'', float_str env fhe_execution_time)]))))))))))))))))))"

text \<open>
  The three stage calls made one after the other with the same arguments, as the
  specification words it: a stage that fails ends the sequence.
\<close>

definition three_stages ::
  "('s, 'm) server_env_scheme \<Rightarrow> string \<Rightarrow> string \<Rightarrow> bytes list
     \<Rightarrow> ('s world, bytes \<times> real) prog" where
  "three_stages env user_id filter_name upload =
     bnd (send_input env user_id filter_name upload) (\<lambda>_.
     bnd (run_fhe env user_id filter_name) (\<lambda>elapsed.
     bnd (get_output env user_id filter_name) (\<lambda>encrypted_output.
     ret (encrypted_output, elapsed))))"

section \<open>The client (mcp_server.py)\<close>

subsection \<open>Library values\<close>

text \<open>
  A PIL image: its mode, its size (width, height) and its raster; a numpy array: its
  shape and its buffer. \<open>numpy.array(image)\<close> has shape (height, width) for a
  single-band mode and (height, width, bands) otherwise.
\<close>

record image =
  im_mode :: string
  im_size :: "nat \<times> nat"
  im_data :: bytes

record array =
  ar_shape :: "nat list"
  ar_data :: bytes

definition bands :: "string \<Rightarrow> nat" where
  "bands m =
     (if m \<in> set [''RGB'', ''YCbCr'', ''LAB'', ''HSV''] then 3
      else if m \<in> set [''RGBA'', ''CMYK'', ''RGBX'', ''RGBa''] then 4
      else if m \<in> set [''LA'', ''PA'', ''La''] then 2
      else 1)"

definition numpy_array :: "image \<Rightarrow> array" where
  "numpy_array img =
     (case im_size img of (width, height) \<Rightarrow>
        \<lparr>ar_shape = (if bands (im_mode img) = 1 then [height, width]
                     else [height, width, bands (im_mode img)]),
         ar_data = im_data img\<rparr>)"

text \<open>
  An \<open>FHEClient\<close> object is known by the arguments of its constructor; its keys live in
  the state outside the program. What \<open>deserialize_decrypt_post_process\<close> returns is
  either \<open>bytes\<close> or an array. A response of \<open>requests\<close> is read through its content and
  \<open>headers.get\<close> only.
\<close>

record fhe_client =
  path_dir :: path
  client_filter :: string
  key_dir :: path

datatype decrypted = DBytes bytes | DArray array

record response =
  content :: bytes
  headers_get :: "string \<Rightarrow> string option"

text \<open>The calls made to \<open>FHEClient\<close> objects, in order: a history kept beside the state.\<close>

datatype call =
    Init fhe_client
  | GenerateKeys fhe_client
  | EncryptSerialize fhe_client array
  | GetEvaluationKeys fhe_client
  | DecryptPostProcess fhe_client bytes

record 's client_world = "'s world" +
  calls :: "call list"

text \<open>What the job returns.\<close>

record job_result =
  r_user_id :: string
  r_filter_name :: string
  r_execution_time :: real
  r_output_id :: string
  r_status :: string

text \<open>
  What the module imports besides \<open>common\<close>: \<open>uuid.uuid4\<close>, \<open>requests\<close>, the class
  \<open>FHEClient\<close> of \<open>client_server_interface\<close>, PIL and numpy, \<open>float\<close> on strings, and
  the UTF-8 decoder with replacement that ends \<open>urllib.parse.unquote\<close>. An answer
  \<open>None\<close> is an exception. \<open>convert_pixels\<close> and \<open>resize_pixels\<close> give the raster of
  \<open>Image.convert\<close> and \<open>Image.resize\<close>, whose results have the mode and the size asked
  for.
\<close>

record 's client_env = common +
  uuid4 :: "'s \<Rightarrow> string \<times> 's"
  requests_get :: "string \<Rightarrow> 's \<Rightarrow> response option \<times> 's"
  requests_post ::
    "string \<Rightarrow> (string \<times> string) list \<Rightarrow> (string \<times> bytes) list \<Rightarrow> 's \<Rightarrow> response option \<times> 's"
  FHEClient :: "fhe_client \<Rightarrow> 's \<Rightarrow> unit option \<times> 's"
  generate_private_and_evaluation_keys :: "fhe_client \<Rightarrow> 's \<Rightarrow> unit option \<times> 's"
  encrypt_serialize :: "fhe_client \<Rightarrow> array \<Rightarrow> 's \<Rightarrow> bytes option \<times> 's"
  get_serialized_evaluation_keys :: "fhe_client \<Rightarrow> 's \<Rightarrow> bytes option \<times> 's"
  deserialize_decrypt_post_process :: "fhe_client \<Rightarrow> bytes \<Rightarrow> 's \<Rightarrow> decrypted option \<times> 's"
  Image_open :: "bytes \<Rightarrow> image option"
  convert_pixels :: "image \<Rightarrow> string \<Rightarrow> bytes option"
  resize_pixels :: "image \<Rightarrow> nat \<times> nat \<Rightarrow> bytes option"
  astype_uint8 :: "array \<Rightarrow> array option"
  Image_fromarray :: "array \<Rightarrow> image option"
  jpeg_encode :: "image \<Rightarrow> bytes option"
  parse_float :: "string \<Rightarrow> real option"
  decode_utf8_replace :: "bytes \<Rightarrow> string"

definition ext_try :: "error \<Rightarrow> ('s \<Rightarrow> 'a option \<times> 's) \<Rightarrow> (('s, 'm) world_scheme, 'a) prog" where
  "ext_try e f w =
     (case f (ext w) of
        (None, s') \<Rightarrow> (Inl e, w\<lparr>ext := s'\<rparr>)
      | (Some x, s') \<Rightarrow> (Inr x, w\<lparr>ext := s'\<rparr>))"

definition client_call ::
  "call \<Rightarrow> ('s \<Rightarrow> 'a option \<times> 's) \<Rightarrow> (('s, 'm) client_world_scheme, 'a) prog" where
  "client_call c f w = ext_try FHEClientError f (w\<lparr>calls := calls w @ [c]\<rparr>)"

definition convert :: "('s, 'm) client_env_scheme \<Rightarrow> image \<Rightarrow> string \<Rightarrow> ('w, image) prog" where
  "convert env img m =
     bnd (or_raise ImageError (convert_pixels env img m)) (\<lambda>d.
     ret \<lparr>im_mode = m, im_size = im_size img, im_data = d\<rparr>)"

definition resize :: "('s, 'm) client_env_scheme \<Rightarrow> image \<Rightarrow> nat \<times> nat \<Rightarrow> ('w, image) prog" where
  "resize env img sz =
     bnd (or_raise ImageError (resize_pixels env img sz)) (\<lambda>d.
     ret \<lparr>im_mode = im_mode img, im_size = sz, im_data = d\<rparr>)"

text \<open>
  \<open>Image.save(path, format="JPEG")\<close>: the file is opened for writing, then encoded into;
  when the encoder fails, a file that did not exist before is removed again.
\<close>

definition save_jpeg ::
  "('s, 'm) client_env_scheme \<Rightarrow> image \<Rightarrow> path \<Rightarrow> (('s, 'n) world_scheme, unit) prog" where
  "save_jpeg env img p w =
     (if \<not> writable w p then (Inl OSError, w)
      else (case jpeg_encode env img of
              Some b \<Rightarrow> (Inr (), w\<lparr>files := (files w)(p \<mapsto> b)\<rparr>)
            | None \<Rightarrow> (Inl ImageError,
                       if files w p = None then w else w\<lparr>files := (files w)(p \<mapsto> [])\<rparr>)))"

subsection \<open>urllib.parse.unquote\<close>

definition hexval :: "char \<Rightarrow> nat option" where
  "hexval c =
     map_of [(CHR ''0'', 0), (CHR ''1'', 1), (CHR ''2'', 2), (CHR ''3'', 3), (CHR ''4'', 4),
             (CHR ''5'', 5), (CHR ''6'', 6), (CHR ''7'', 7), (CHR ''8'', 8), (CHR ''9'', 9),
             (CHR ''A'', 10), (CHR ''B'', 11), (CHR ''C'', 12), (CHR ''D'', 13),
             (CHR ''E'', 14), (CHR ''F'', 15), (CHR ''a'', 10), (CHR ''b'', 11),
             (CHR ''c'', 12), (CHR ''d'', 13), (CHR ''e'', 14), (CHR ''f'', 15)] c"

text \<open>One piece after a percent sign: two hexadecimal digits become the byte they name.\<close>

definition unquote_item :: "string \<Rightarrow> bytes" where
  "unquote_item item =
     (case item of
        a # b # rest \<Rightarrow>
          (case (hexval a, hexval b) of
             (Some x, Some y) \<Rightarrow> char_of (16 * x + y) # rest
           | _ \<Rightarrow> CHR ''%'' # item)
      | _ \<Rightarrow> CHR ''%'' # item)"

definition unquote_to_bytes :: "string \<Rightarrow> bytes" where
  "unquote_to_bytes s =
     (case split_on (CHR ''%'') s of
        [] \<Rightarrow> []
      | b # bits \<Rightarrow> b @ concat (map unquote_item bits))"

definition unquote :: "('s, 'm) client_env_scheme \<Rightarrow> string \<Rightarrow> string" where
  "unquote env s =
     (if CHR ''%'' \<notin> set s then s else decode_utf8_replace env (unquote_to_bytes s))"

subsection \<open>The tools\<close>

definition FHE_SERVER_URL :: string where
  "FHE_SERVER_URL = ''http://localhost:8000''"

text \<open>
  \<open>download_image\<close> builds its path as a string and opens it with the built-in \<open>open\<close>;
  the file it names is the one of the path the string parses to.
\<close>

definition download_image ::
  "('s, 'm) client_env_scheme \<Rightarrow> string \<Rightarrow> (('s, 'n) world_scheme, string) prog" where
  "download_image env image_url =
     bnd (ext_try RequestException (requests_get env image_url)) (\<lambda>resp.
     bnd (ext_call (uuid4 env)) (\<lambda>u.
     (let image_path = path_str (CLIENT_TMP_PATH env) @ ''/'' @ u @ ''.jpg''
      in bnd (open_wb (parse_path image_path)) (\<lambda>_.
         bnd (write_file (parse_path image_path) (content resp)) (\<lambda>_.
         ret image_path)))))"

definition get_client_file_path :: "'m common_scheme \<Rightarrow> string \<Rightarrow> string \<Rightarrow> string \<Rightarrow> path" where
  "get_client_file_path env name ident filter_name =
     path_join (CLIENT_TMP_PATH env) (name @ ''_'' @ filter_name @ ''_'' @ ident)"

definition process_image_with_fhe ::
  "('s, 'm) client_env_scheme \<Rightarrow> string \<Rightarrow> string \<Rightarrow> ('s client_world, job_result) prog" where
  "process_image_with_fhe env image_url filter_name =
     bnd (download_image env image_url) (\<lambda>image_path.
     bnd (ext_call (uuid4 env)) (\<lambda>user_id.
     (let client = \<lparr>path_dir = path_join (FILTERS_PATH env) (filter_name @ ''/deployment''),
                    client_filter = filter_name,
                    key_dir = path_join (KEYS_PATH env) (filter_name @ ''_'' @ user_id)\<rparr>
      in bnd (client_call (Init client) (FHEClient env client)) (\<lambda>_.
         bnd (client_call (GenerateKeys client)
                (generate_private_and_evaluation_keys env client)) (\<lambda>key_result.
         bnd (open_rb (parse_path image_path)) (\<lambda>raw.
         bnd (or_raise ImageError (Image_open env raw)) (\<lambda>input_image.
         bnd (if im_mode input_image \<noteq> ''RGB'' then convert env input_image ''RGB''
              else ret input_image) (\<lambda>input_image.
         bnd (if im_size input_image \<noteq> (100, 100) then resize env input_image (100, 100)
              else ret input_image) (\<lambda>input_image.
         (let input_image_array = numpy_array input_image
          in bnd (if ar_shape input_image_array = [100, 100, 3] then ret ()
                  else raise (AssertionError (ar_shape input_image_array))) (\<lambda>_.
             bnd (client_call (EncryptSerialize client input_image_array)
                    (encrypt_serialize env client input_image_array)) (\<lambda>encrypt_result.
             bnd (client_call (GetEvaluationKeys client)
                    (get_serialized_evaluation_keys env client)) (\<lambda>evaluation_keys.
             (let upload = [(''encrypted_image.bin'', encrypt_result),
                            (''evaluation_keys.bin'', evaluation_keys)];
                  data = [(''user_id'', user_id), (''filter'', filter_name)]
              in bnd (ext_try RequestException
                        (requests_post env (FHE_SERVER_URL @ ''/fhe_full'') data upload))
                   (\<lambda>resp.
                 bnd (case headers_get resp ''X-FHE-Execution-Time'' of
                        None \<Rightarrow> ret 0
                      | Some s \<Rightarrow> or_raise ValueError (parse_float env s)) (\<lambda>execution_time.
                 (let encrypted_output = content resp
                  in bnd (ext_call (uuid4 env)) (\<lambda>output_id.
                     (let output_path = get_client_file_path env ''output'' output_id filter_name
                      in bnd (open_wb output_path) (\<lambda>_.
                         bnd (write_file output_path encrypted_output) (\<lambda>_.
                         ret \<lparr>r_user_id = user_id, r_filter_name = filter_name,
                              r_execution_time = execution_time, r_output_id = output_id,
                              r_status = ''success''\<rparr>)))))))))))))))))))))"

definition decrypt_output_image ::
  "('s, 'm) client_env_scheme \<Rightarrow> string \<Rightarrow> string \<Rightarrow> string \<Rightarrow> ('s client_world, string) prog" where
  "decrypt_output_image env user_id filter_name output_id =
     (let decoded_filter_name = unquote env filter_name;
          client = \<lparr>path_dir = path_join (FILTERS_PATH env) (decoded_filter_name @ ''/deployment''),
                    client_filter = decoded_filter_name,
                    key_dir = path_join (KEYS_PATH env) (decoded_filter_name @ ''_'' @ user_id)\<rparr>
      in bnd (client_call (Init client) (FHEClient env client)) (\<lambda>_.
         bnd (client_call (GenerateKeys client)
                (generate_private_and_evaluation_keys env client)) (\<lambda>key_result.
         (let output_path = get_client_file_path env ''output'' output_id decoded_filter_name
          in bnd (open_rb output_path) (\<lambda>encrypted_output.
             bnd (client_call (DecryptPostProcess client encrypted_output)
                    (deserialize_decrypt_post_process env client encrypted_output))
               (\<lambda>decrypted_output.
             bnd (case decrypted_output of
                    DBytes b \<Rightarrow>
                      (if length b = 100 * 100 * 3
                       then ret \<lparr>ar_shape = [100, 100, 3], ar_data = b\<rparr>
                       else raise ValueError)
                  | DArray a \<Rightarrow> or_raise ImageError (astype_uint8 env a))
               (\<lambda>decrypted_output_array.
             bnd (or_raise ImageError (Image_fromarray env decrypted_output_array)) (\<lambda>pil_image.
             bnd (ext_call (uuid4 env)) (\<lambda>image_uuid.
             (let temp_jpg_path =
                    get_client_file_path env (''temp_jpg_'' @ image_uuid) (user_id @ ''.jpeg'')
                      decoded_filter_name
              in bnd (save_jpeg env pil_image temp_jpg_path) (\<lambda>_.
                 ret (FHE_SERVER_URL @ ''/test/image/'' @ path_name temp_jpg_path))))))))))))"


subsection \<open>The job, block by block\<close>

text \<open>
  The \<open>FHEClient\<close> object both tools construct from a filter name and a user
  identifier, and the body of \<open>process_image_with_fhe\<close> cut in three: up to
  \<open>Image.open\<close>, the preprocessing with its shape check, and the rest from
  \<open>encrypt_serialize\<close> on. Lemma \<open>process_image_with_fhe_blocks\<close> below shows that
  the three in sequence are the function.
\<close>

definition job_client :: "'m common_scheme \<Rightarrow> string \<Rightarrow> string \<Rightarrow> fhe_client" where
  "job_client env filter_name user_id =
     \<lparr>path_dir = path_join (FILTERS_PATH env) (filter_name @ ''/deployment''),
      client_filter = filter_name,
      key_dir = path_join (KEYS_PATH env) (filter_name @ ''_'' @ user_id)\<rparr>"

definition job_acquire ::
  "('s, 'm) client_env_scheme \<Rightarrow> string \<Rightarrow> string \<Rightarrow> ('s client_world, string \<times> image) prog" where
  "job_acquire env image_url filter_name =
     bnd (download_image env image_url) (\<lambda>image_path.
     bnd (ext_call (uuid4 env)) (\<lambda>user_id.
     bnd (client_call (Init (job_client env filter_name user_id))
            (FHEClient env (job_client env filter_name user_id))) (\<lambda>_.
     bnd (client_call (GenerateKeys (job_client env filter_name user_id))
            (generate_private_and_evaluation_keys env (job_client env filter_name user_id)))
       (\<lambda>key_result.
     bnd (open_rb (parse_path image_path)) (\<lambda>raw.
     bnd (or_raise ImageError (Image_open env raw)) (\<lambda>input_image.
     ret (user_id, input_image)))))))"

definition job_preprocess ::
  "('s, 'm) client_env_scheme \<Rightarrow> image \<Rightarrow> ('s client_world, array) prog" where
  "job_preprocess env input_image0 =
     bnd (if im_mode input_image0 \<noteq> ''RGB'' then convert env input_image0 ''RGB''
          else ret input_image0) (\<lambda>input_image1.
     bnd (if im_size input_image1 \<noteq> (100, 100) then resize env input_image1 (100, 100)
          else ret input_image1) (\<lambda>input_image.
     bnd (if ar_shape (numpy_array input_image) = [100, 100, 3] then ret ()
          else raise (AssertionError (ar_shape (numpy_array input_image)))) (\<lambda>_.
     ret (numpy_array input_image))))"

definition job_submit ::
  "('s, 'm) client_env_scheme \<Rightarrow> string \<Rightarrow> string \<Rightarrow> array \<Rightarrow> ('s client_world, job_result) prog" where
  "job_submit env user_id filter_name input_image_array =
     bnd (client_call (EncryptSerialize (job_client env filter_name user_id) input_image_array)
            (encrypt_serialize env (job_client env filter_name user_id) input_image_array))
       (\<lambda>encrypt_result.
     bnd (client_call (GetEvaluationKeys (job_client env filter_name user_id))
            (get_serialized_evaluation_keys env (job_client env filter_name user_id)))
       (\<lambda>evaluation_keys.
     bnd (ext_try RequestException
            (requests_post env (FHE_SERVER_URL @ ''/fhe_full'')
               [(''user_id'', user_id), (''filter'', filter_name)]
               [(''encrypted_image.bin'', encrypt_result),
                (''evaluation_keys.bin'', evaluation_keys)])) (\<lambda>resp.
     bnd (case headers_get resp ''X-FHE-Execution-Time'' of
            None \<Rightarrow> ret 0
          | Some s \<Rightarrow> or_raise ValueError (parse_float env s)) (\<lambda>execution_time.
     bnd (ext_call (uuid4 env)) (\<lambda>output_id.
     bnd (open_wb (get_client_file_path env ''output'' output_id filter_name)) (\<lambda>_.
     bnd (write_file (get_client_file_path env ''output'' output_id filter_name) (content resp))
       (\<lambda>_.
     ret \<lparr>r_user_id = user_id, r_filter_name = filter_name,
          r_execution_time = execution_time, r_output_id = output_id,
          r_status = ''success''\<rparr>)))))))"

section \<open>Outcomes\<close>

text \<open>
  \<open>post m w E Q\<close>: run from \<open>w\<close>, the program \<open>m\<close> either raises an exception \<open>e\<close> in
  a state \<open>w'\<close> with \<open>E e w'\<close>, or returns \<open>x\<close> in a state \<open>w'\<close> with \<open>Q x w'\<close>.
\<close>

definition post :: "('w, 'a) prog \<Rightarrow> 'w \<Rightarrow> (error \<Rightarrow> 'w \<Rightarrow> bool) \<Rightarrow> ('a \<Rightarrow> 'w \<Rightarrow> bool) \<Rightarrow> bool" where
  "post m w E Q = (case m w of (Inl e, w') \<Rightarrow> E e w' | (Inr x, w') \<Rightarrow> Q x w')"

section \<open>Example environments\<close>

text \<open>Concrete values of the parameters, at which the theorems below are instantiated.\<close>

definition demo_common :: common where
  "demo_common =
     \<lparr>FILTERS_PATH = \<lparr>p_root = ''/'', p_parts = [''filters'']\<rparr>,
      KEYS_PATH = \<lparr>p_root = ''/'', p_parts = [''keys'']\<rparr>,
      SERVER_TMP_PATH = \<lparr>p_root = ''/'', p_parts = [''server_tmp'']\<rparr>,
      CLIENT_TMP_PATH = \<lparr>p_root = ''/'', p_parts = [''client_tmp'']\<rparr>,
      AVAILABLE_FILTERS = [''identity'', ''inverted'']\<rparr>"

definition demo_server_env :: "nat server_env" where
  "demo_server_env =
     \<lparr>FILTERS_PATH = \<lparr>p_root = ''/'', p_parts = [''filters'']\<rparr>,
      KEYS_PATH = \<lparr>p_root = ''/'', p_parts = [''keys'']\<rparr>,
      SERVER_TMP_PATH = \<lparr>p_root = ''/'', p_parts = [''server_tmp'']\<rparr>,
      CLIENT_TMP_PATH = \<lparr>p_root = ''/'', p_parts = [''client_tmp'']\<rparr>,
      AVAILABLE_FILTERS = [''identity'', ''inverted''],
      FHEServer = (\<lambda>d img key. Some (rev img)),
      time_time = (\<lambda>n. (real n, Suc n)),
      round_elapsed = (\<lambda>t1 t0. t1 - t0),
      float_str = (\<lambda>t. ''1.0'')\<rparr>"

definition demo_world :: "nat world" where
  "demo_world = \<lparr>files = Map.empty, writable = (\<lambda>p. True), ext = 0\<rparr>"

definition demo_submit :: "string \<Rightarrow> string \<Rightarrow> bytes list \<Rightarrow> nat world \<Rightarrow> nat world" where
  "demo_submit u f up w = snd (send_input demo_server_env u f up w)"


text \<open>
  A client environment in which every library call succeeds: the downloaded image is
  an RGBA image of 640 by 480, the server answers without a timing header, and the
  identifiers minted are \<open>img-1\<close>, \<open>user-2\<close>, \<open>out-3\<close> and \<open>tmp-4\<close>.
\<close>

definition demo_client_env :: "nat client_env" where
  "demo_client_env =
     \<lparr>FILTERS_PATH = \<lparr>p_root = ''/'', p_parts = [''filters'']\<rparr>,
      KEYS_PATH = \<lparr>p_root = ''/'', p_parts = [''keys'']\<rparr>,
      SERVER_TMP_PATH = \<lparr>p_root = ''/'', p_parts = [''server_tmp'']\<rparr>,
      CLIENT_TMP_PATH = \<lparr>p_root = ''/'', p_parts = [''client_tmp'']\<rparr>,
      AVAILABLE_FILTERS = [''identity'', ''inverted''],
      uuid4 = (\<lambda>n. (if n = 0 then ''img-1'' else if n = 1 then ''user-2''
                      else if n = 2 then ''out-3'' else ''tmp-4'', Suc n)),
      requests_get = (\<lambda>url s. (Some \<lparr>content = ''PNG'', headers_get = (\<lambda>h. None)\<rparr>, s)),
      requests_post =
        (\<lambda>url d fs s. (Some \<lparr>content = ''CIPHERTEXT'', headers_get = (\<lambda>h. None)\<rparr>, s)),
      FHEClient = (\<lambda>c s. (Some (), s)),
      generate_private_and_evaluation_keys = (\<lambda>c s. (Some (), s)),
      encrypt_serialize = (\<lambda>c a s. (Some (ar_data a), s)),
      get_serialized_evaluation_keys = (\<lambda>c s. (Some ''EVK'', s)),
      deserialize_decrypt_post_process =
        (\<lambda>c b s. (Some (DArray \<lparr>ar_shape = [100, 100, 3], ar_data = b\<rparr>), s)),
      Image_open = (\<lambda>b. Some \<lparr>im_mode = ''RGBA'', im_size = (640, 480), im_data = b\<rparr>),
      convert_pixels = (\<lambda>img m. Some (im_data img)),
      resize_pixels = (\<lambda>img sz. Some (im_data img)),
      astype_uint8 = Some,
      Image_fromarray =
        (\<lambda>a. Some \<lparr>im_mode = ''RGB'', im_size = (100, 100), im_data = ar_data a\<rparr>),
      jpeg_encode = (\<lambda>img. Some (im_data img)),
      parse_float = (\<lambda>s. None),
      decode_utf8_replace = (\<lambda>b. b)\<rparr>"

definition demo_client_world :: "nat client_world" where
  "demo_client_world = \<lparr>files = Map.empty, writable = (\<lambda>p. True), ext = 0, calls = []\<rparr>"

definition demo_job :: "string \<Rightarrow> (error + job_result) \<times> nat client_world" where
  "demo_job f =
     process_image_with_fhe demo_client_env ''http://example.org/cat.png'' f demo_client_world"

definition demo_array :: array where
  "demo_array = \<lparr>ar_shape = [100, 100, 3], ar_data = ''PNG''\<rparr>"

section \<open>Lemmas on paths and the store\<close>

lemma split_on_not_Nil: "split_on c s \<noteq> []"
  by (induction s) (auto split: list.splits)

lemma split_on_no_sep: "c \<notin> set s \<Longrightarrow> split_on c s = [s]"
  by (induction s) auto

lemma split_on_two_head:
  "x \<noteq> c \<Longrightarrow> y \<noteq> c \<Longrightarrow> \<exists>w ws. split_on c (x # y # s) = (x # y # w) # ws"
  using split_on_not_Nil [of c s] by (cases "split_on c s") auto

lemma parse_path_plain:
  "CHR ''/'' \<notin> set s \<Longrightarrow> s \<noteq> '''' \<Longrightarrow> s \<noteq> ''.'' \<Longrightarrow>
   parse_path s = \<lparr>p_root = '''', p_parts = [s]\<rparr>"
  by (cases s) (auto simp: parse_path_def path_root_of_def split_on_no_sep)

lemma path_join_plain:
  "CHR ''/'' \<notin> set s \<Longrightarrow> s \<noteq> '''' \<Longrightarrow> s \<noteq> ''.'' \<Longrightarrow>
   path_join p s = \<lparr>p_root = p_root p, p_parts = p_parts p @ [s]\<rparr>"
  by (simp add: path_join_def parse_path_plain)

lemma last_sep_unique:
  "c \<notin> set ys \<Longrightarrow> c \<notin> set ys' \<Longrightarrow> xs @ c # ys = xs' @ c # ys' \<Longrightarrow> xs = xs' \<and> ys = ys'"
proof (induction xs arbitrary: xs')
  case Nil
  then show ?case by (cases xs') auto
next
  case (Cons x xs)
  then show ?case by (cases xs') auto
qed

lemma path_join_two_head:
  assumes "x \<noteq> CHR ''/''" "y \<noteq> CHR ''/''"
  shows "\<exists>w ws. path_join p (x # y # s) = \<lparr>p_root = p_root p, p_parts = p_parts p @ (x # y # w) # ws\<rparr>"
proof -
  obtain w ws where sp: "split_on (CHR ''/'') (x # y # s) = (x # y # w) # ws"
    using split_on_two_head [OF assms] by blast
  have r: "path_root_of (x # y # s) = ''''"
    using assms by (simp add: path_root_of_def)
  have "parse_path (x # y # s) = \<lparr>p_root = '''', p_parts = (x # y # w) # filter (\<lambda>x. x \<noteq> '''' \<and> x \<noteq> ''.'') ws\<rparr>"
    unfolding parse_path_def r sp by simp
  then show ?thesis
    by (simp add: path_join_def Let_def del: split_on.simps)
qed

lemma input_paths_distinct:
  "get_server_file_path env ''encrypted_image'' u f \<noteq> get_server_file_path env ''evaluation_key'' u f"
proof -
  obtain w ws where a: "get_server_file_path env ''encrypted_image'' u f =
      \<lparr>p_root = p_root (SERVER_TMP_PATH env), p_parts = p_parts (SERVER_TMP_PATH env) @ (CHR ''e'' # CHR ''n'' # w) # ws\<rparr>"
    using path_join_two_head [of "CHR ''e''" "CHR ''n''" "SERVER_TMP_PATH env"]
    by (fastforce simp: get_server_file_path_def)
  obtain w' ws' where b: "get_server_file_path env ''evaluation_key'' u f =
      \<lparr>p_root = p_root (SERVER_TMP_PATH env), p_parts = p_parts (SERVER_TMP_PATH env) @ (CHR ''e'' # CHR ''v'' # w') # ws'\<rparr>"
    using path_join_two_head [of "CHR ''e''" "CHR ''v''" "SERVER_TMP_PATH env"]
    by (fastforce simp: get_server_file_path_def)
  show ?thesis unfolding a b by simp
qed

lemma bnd_assoc: "bnd (bnd m f) g = bnd m (\<lambda>x. bnd (f x) g)"
  by (auto simp: bnd_def fun_eq_iff split: prod.splits sum.splits)

lemma bnd_ret: "bnd (ret x) f = f x"
  by (simp add: bnd_def ret_def fun_eq_iff)

lemma foldl_upd_lookup:
  "foldl (\<lambda>m f. m(f \<mapsto> g f)) m0 xs k = (if k \<in> set xs then Some (g k) else m0 k)"
  by (induction xs arbitrary: m0) auto

lemma FHE_SERVERS_lookup:
  "FHE_SERVERS env f =
     (if f \<in> set (AVAILABLE_FILTERS env)
      then Some (FHEServer env (path_join (FILTERS_PATH env) (f @ ''/deployment''))) else None)"
  by (simp add: FHE_SERVERS_def foldl_upd_lookup)

lemma send_input_cases:
  "send_input env u f up w =
    (let pi = get_server_file_path env ''encrypted_image'' u f;
         pk = get_server_file_path env ''evaluation_key'' u f in
     if \<not> writable w pi then (Inl OSError, w)
     else if \<not> writable w pk then (Inl OSError, w\<lparr>files := (files w)(pi \<mapsto> [])\<rparr>)
     else if length up = 0 then (Inl IndexError, w\<lparr>files := (files w)(pi \<mapsto> [], pk \<mapsto> [])\<rparr>)
     else if length up = 1 then (Inl IndexError, w\<lparr>files := (files w)(pi \<mapsto> up ! 0, pk \<mapsto> [])\<rparr>)
     else (Inr (), w\<lparr>files := (files w)(pi \<mapsto> up ! 0, pk \<mapsto> up ! 1)\<rparr>))"
  using input_paths_distinct [of env u f]
  apply (simp add: send_input_def Let_def bnd_def open_wb_def write_file_def index_def)
  apply (auto simp: fun_upd_twist)
  apply (cases up; simp)
  done

lemma joined_name_plain:
  assumes "CHR ''/'' \<notin> set (n @ f @ u)"
  shows "path_join p (n @ ''_'' @ f @ ''_'' @ u) =
           \<lparr>p_root = p_root p, p_parts = p_parts p @ [n @ ''_'' @ f @ ''_'' @ u]\<rparr>"
proof -
  have a: "n @ ''_'' @ f @ ''_'' @ u \<noteq> []" by simp
  have "length (n @ ''_'' @ f @ ''_'' @ u) \<ge> 2" by simp
  then have b: "n @ ''_'' @ f @ ''_'' @ u \<noteq> ''.''"
    by (metis One_nat_def length_Cons list.size(3) numeral_le_one_iff semiring_norm(69))
  have c: "CHR ''/'' \<notin> set (n @ ''_'' @ f @ ''_'' @ u)" using assms by simp
  show ?thesis by (rule path_join_plain [OF c a b])
qed

lemma joined_name_inj:
  assumes "CHR ''_'' \<notin> set (f1 @ u1)" "CHR ''_'' \<notin> set (f2 @ u2)"
    and eq: "n1 @ ''_'' @ f1 @ ''_'' @ u1 = n2 @ ''_'' @ f2 @ ''_'' @ u2"
  shows "n1 = n2 \<and> f1 = f2 \<and> u1 = u2"
proof -
  have "(n1 @ ''_'' @ f1) @ CHR ''_'' # u1 = (n2 @ ''_'' @ f2) @ CHR ''_'' # u2"
    using eq by simp
  then have 1: "n1 @ ''_'' @ f1 = n2 @ ''_'' @ f2 \<and> u1 = u2"
    using assms(1,2) by (intro last_sep_unique) auto
  then have "n1 @ CHR ''_'' # f1 = n2 @ CHR ''_'' # f2" by simp
  then have "n1 = n2 \<and> f1 = f2"
    using assms(1,2) by (intro last_sep_unique) auto
  with 1 show ?thesis by simp
qed

lemma run_fhe_cases:
  "run_fhe env u f w =
    (case files w (get_server_file_path env ''encrypted_image'' u f) of
       None \<Rightarrow> (Inl FileNotFoundError, w)
     | Some img \<Rightarrow>
    (case files w (get_server_file_path env ''evaluation_key'' u f) of
       None \<Rightarrow> (Inl FileNotFoundError, w)
     | Some key \<Rightarrow>
    (case FHE_SERVERS env f of
       None \<Rightarrow> (Inl (KeyError f), w)
     | Some srv \<Rightarrow>
    (case time_time env (ext w) of (t0, s1) \<Rightarrow>
    (case srv img key of
       None \<Rightarrow> (Inl ComputeEngineError, w\<lparr>ext := s1\<rparr>)
     | Some out \<Rightarrow>
    (case time_time env s1 of (t1, s2) \<Rightarrow>
       if writable w (get_server_file_path env ''encrypted_output'' u f)
       then (Inr (round_elapsed env t1 t0),
             w\<lparr>ext := s2,
               files := (files w)(get_server_file_path env ''encrypted_output'' u f \<mapsto> out)\<rparr>)
       else (Inl OSError, w\<lparr>ext := s2\<rparr>)))))))"
  by (simp add: run_fhe_def Let_def bnd_def open_rb_def open_wb_def write_file_def ret_def
      or_raise_def ext_call_def split: option.splits prod.splits)

lemma get_output_cases:
  "get_output env u f w =
     (case files w (get_server_file_path env ''encrypted_output'' u f) of
        None \<Rightarrow> (Inl FileNotFoundError, w) | Some b \<Rightarrow> (Inr b, w))"
  by (simp add: get_output_def open_rb_def)

lemma two_updates_twice:
  "p \<noteq> q \<Longrightarrow> m(p \<mapsto> a, q \<mapsto> b, p \<mapsto> c, q \<mapsto> d) = m(p \<mapsto> c, q \<mapsto> d)"
  by (auto simp: fun_eq_iff)

lemma send_input_ok_iff:
  "send_input env u f up w = (Inr (), w') \<longleftrightarrow>
     writable w (get_server_file_path env ''encrypted_image'' u f) \<and>
     writable w (get_server_file_path env ''evaluation_key'' u f) \<and> 2 \<le> length up \<and>
     w' = w\<lparr>files := (files w)(get_server_file_path env ''encrypted_image'' u f \<mapsto> up ! 0,
                              get_server_file_path env ''evaluation_key'' u f \<mapsto> up ! 1)\<rparr>"
proof -
  have "up \<noteq> [] \<Longrightarrow> length up \<noteq> Suc 0 \<Longrightarrow> 2 \<le> length up"
    by (cases up) (auto simp: Suc_le_eq)
  then show ?thesis
    by (auto simp: send_input_cases Let_def)
qed

lemma demo_submit_eq:
  "demo_submit u f [a, b] demo_world =
     demo_world\<lparr>files := (files demo_world)
        (get_server_file_path demo_server_env ''encrypted_image'' u f \<mapsto> a,
         get_server_file_path demo_server_env ''evaluation_key'' u f \<mapsto> b)\<rparr>"
  by (simp add: demo_submit_def send_input_cases Let_def demo_world_def)

lemma demo_submit_writable: "writable (demo_submit u f up w) = writable w"
  by (simp add: demo_submit_def send_input_cases Let_def)

lemma demo_submit_ok:
  "writable w = (\<lambda>p. True) \<Longrightarrow> 2 \<le> length up \<Longrightarrow>
   send_input demo_server_env u f up w = (Inr (), demo_submit u f up w)"
  by (auto simp: demo_submit_def send_input_cases Let_def)


section \<open>Lemmas on outcomes\<close>

lemma files_upd_eq:
  "(w::('s, 'm) world_scheme)\<lparr>files := (files w)(p \<mapsto> b)\<rparr> = files_update (\<lambda>m. m(p \<mapsto> b)) w"
  by (cases w) simp

lemma calls_upd_eq:
  "(w::('s, 'm) client_world_scheme)\<lparr>calls := calls w @ [c]\<rparr> = calls_update (\<lambda>cs. cs @ [c]) w"
  by (cases w) simp

lemma post_bnd: "post (bnd m f) w E Q = post m w E (\<lambda>x w'. post (f x) w' E Q)"
  by (simp add: post_def bnd_def split: prod.splits sum.splits)

lemma post_ret: "post (ret x) w E Q = Q x w"
  by (simp add: post_def ret_def)

lemma post_raise: "post (raise e) w E Q = E e w"
  by (simp add: post_def raise_def)

lemma post_open_wb:
  "post (open_wb p) w E Q =
     (if writable w p then Q () (files_update (\<lambda>m. m(p \<mapsto> [])) w) else E OSError w)"
  by (simp add: post_def open_wb_def files_upd_eq)

lemma post_write_file: "post (write_file p b) w E Q = Q () (files_update (\<lambda>m. m(p \<mapsto> b)) w)"
  by (simp add: post_def write_file_def files_upd_eq)

lemma post_open_rb:
  "post (open_rb p) w E Q = (case files w p of None \<Rightarrow> E FileNotFoundError w | Some b \<Rightarrow> Q b w)"
  by (simp add: post_def open_rb_def split: option.splits)

lemma post_ext_call:
  "post (ext_call f) w E Q = (case f (ext w) of (x, s') \<Rightarrow> Q x (w\<lparr>ext := s'\<rparr>))"
  by (simp add: post_def ext_call_def split: prod.splits)

lemma post_ext_try:
  "post (ext_try e f) w E Q =
     (case f (ext w) of (None, s') \<Rightarrow> E e (w\<lparr>ext := s'\<rparr>) | (Some x, s') \<Rightarrow> Q x (w\<lparr>ext := s'\<rparr>))"
  by (simp add: post_def ext_try_def split: prod.splits option.splits)

lemma post_or_raise:
  "post (or_raise e r) w E Q = (case r of None \<Rightarrow> E e w | Some x \<Rightarrow> Q x w)"
  by (simp add: post_def or_raise_def split: option.splits)

lemma post_client_call:
  "post (client_call c f) w E Q =
     post (ext_try FHEClientError f) (calls_update (\<lambda>cs. cs @ [c]) w) E Q"
  by (simp add: post_def client_call_def calls_upd_eq)

lemma post_if: "post (if b then m else m') w E Q = (if b then post m w E Q else post m' w E Q)"
  by simp

lemma post_case_option:
  "post (case r of None \<Rightarrow> m | Some x \<Rightarrow> f x) w E Q =
     (case r of None \<Rightarrow> post m w E Q | Some x \<Rightarrow> post (f x) w E Q)"
  by (simp split: option.splits)

lemma post_case_decrypted:
  "post (case r of DBytes b \<Rightarrow> f b | DArray a \<Rightarrow> g a) w E Q =
     (case r of DBytes b \<Rightarrow> post (f b) w E Q | DArray a \<Rightarrow> post (g a) w E Q)"
  by (simp split: decrypted.splits)

lemma post_save_jpeg:
  "post (save_jpeg env img p) w E Q =
     (if \<not> writable w p then E OSError w
      else (case jpeg_encode env img of
              Some b \<Rightarrow> Q () (files_update (\<lambda>m. m(p \<mapsto> b)) w)
            | None \<Rightarrow> E ImageError
                       (if files w p = None then w else w\<lparr>files := (files w)(p \<mapsto> [])\<rparr>)))"
  by (simp add: post_def save_jpeg_def files_upd_eq split: option.splits)

lemmas post_simps = post_bnd post_ret post_raise post_open_wb post_write_file post_open_rb
  post_ext_call post_ext_try post_or_raise post_client_call post_if post_case_option
  post_case_decrypted post_save_jpeg

lemma post_bnd_seq:
  assumes "post m w E' R"
    and "\<And>e w'. E' e w' \<Longrightarrow> E e w'"
    and "\<And>x w'. R x w' \<Longrightarrow> post (f x) w' E Q"
  shows "post (bnd m f) w E Q"
proof (cases "m w")
  case (Pair r w1)
  show ?thesis
  proof (cases r)
    case (Inl e)
    with Pair assms(1) have "E' e w1" by (simp add: post_def)
    then have "E e w1" by (rule assms(2))
    with Pair Inl show ?thesis by (simp add: post_def bnd_def)
  next
    case (Inr x)
    with Pair assms(1) have "R x w1" by (simp add: post_def)
    then have "post (f x) w1 E Q" by (rule assms(3))
    with Pair Inr show ?thesis by (simp add: post_def bnd_def)
  qed
qed

lemma post_weaken:
  assumes "post m w E' Q'"
    and "\<And>e w'. E' e w' \<Longrightarrow> E e w'"
    and "\<And>x w'. Q' x w' \<Longrightarrow> Q x w'"
  shows "post m w E Q"
  using assms by (cases "m w") (auto simp: post_def split: sum.splits)

lemma post_fst_snd:
  "post m w E Q \<longleftrightarrow>
     (case fst (m w) of Inl e \<Rightarrow> E e (snd (m w)) | Inr x \<Rightarrow> Q x (snd (m w)))"
  by (cases "m w") (simp add: post_def split: sum.splits)

section \<open>Lemmas on the client\<close>

lemma process_image_with_fhe_blocks:
  "process_image_with_fhe env image_url filter_name =
     bnd (job_acquire env image_url filter_name) (\<lambda>(user_id, input_image).
     bnd (job_preprocess env input_image) (\<lambda>input_image_array.
     job_submit env user_id filter_name input_image_array))"
  by (simp add: process_image_with_fhe_def job_acquire_def job_preprocess_def job_submit_def
      job_client_def Let_def bnd_assoc bnd_ret)

lemma post_job_acquire:
  "post (job_acquire env url f) w
     (\<lambda>e w'. e \<noteq> ValueError \<and> (\<forall>s. e \<noteq> AssertionError s) \<and>
        (\<exists>cs. calls w' = calls w @ cs \<and> (\<forall>c a. EncryptSerialize c a \<notin> set cs)))
     (\<lambda>(u, img) w'. calls w' = calls w @ [Init (job_client env f u), GenerateKeys (job_client env f u)])"
  unfolding job_acquire_def download_image_def Let_def
  apply (simp only: post_simps)
  apply (simp split: prod.splits option.splits)
  done

lemma post_job_preprocess:
  "post (job_preprocess env img) w
     (\<lambda>e w'. e = ImageError \<and> w' = w)
     (\<lambda>arr w'. ar_shape arr = [100, 100, 3] \<and> w' = w)"
  unfolding job_preprocess_def convert_def resize_def
  apply (simp only: post_simps)
  apply (simp add: numpy_array_def bands_def split: prod.splits option.splits)
  done

lemma post_job_submit:
  "post (job_submit env u f arr) w
     (\<lambda>e w'. (\<forall>s. e \<noteq> AssertionError s) \<and>
        (\<exists>cs. calls w' = calls w @ cs \<and>
           (\<forall>c a. EncryptSerialize c a \<in> set cs \<longrightarrow> a = arr)))
     (\<lambda>r w'. r_user_id r = u \<and> r_filter_name r = f \<and> r_status r = ''success'' \<and>
        calls w' = calls w @ [EncryptSerialize (job_client env f u) arr,
                              GetEvaluationKeys (job_client env f u)] \<and>
        files w' (get_client_file_path env ''output'' (r_output_id r) f) \<noteq> None)"
  unfolding job_submit_def
  apply (simp only: post_simps)
  apply (simp split: prod.splits option.splits)
  done

lemma post_job_submit_no_header:
  assumes "\<forall>url d fs s r s'. requests_post env url d fs s = (Some r, s') \<longrightarrow>
             headers_get r ''X-FHE-Execution-Time'' = None"
  shows "post (job_submit env u f arr) w
     (\<lambda>e w'. e \<noteq> ValueError)
     (\<lambda>r w'. r_execution_time r = 0 \<and> r_status r = ''success'')"
  unfolding job_submit_def
  apply (simp only: post_simps)
  using assms apply (auto split: prod.splits option.splits)
   apply (metis option.distinct(1))+
  done

lemma post_job_calls:
  "post (process_image_with_fhe env url f) (w :: 's client_world)
     (\<lambda>e w'. True)
     (\<lambda>r w'. r_filter_name r = f \<and>
        (\<exists>arr. calls w' = calls w @
           [Init (job_client env f (r_user_id r)), GenerateKeys (job_client env f (r_user_id r)),
            EncryptSerialize (job_client env f (r_user_id r)) arr,
            GetEvaluationKeys (job_client env f (r_user_id r))]))"
  unfolding process_image_with_fhe_blocks
proof (rule post_bnd_seq [OF post_job_acquire])
  fix x :: "string \<times> image" and w1 :: "'s client_world"
  assume r: "(case x of (u, img) \<Rightarrow> \<lambda>w'. calls w' =
    calls w @ [Init (job_client env f u), GenerateKeys (job_client env f u)]) w1"
  obtain u img where x: "x = (u, img)" by (cases x)
  from r x have c1: "calls w1 =
    calls w @ [Init (job_client env f u), GenerateKeys (job_client env f u)]" by simp
  have "post (bnd (job_preprocess env img) (\<lambda>arr. job_submit env u f arr)) w1
     (\<lambda>e w'. True)
     (\<lambda>r w'. r_filter_name r = f \<and>
        (\<exists>arr. calls w' = calls w @
           [Init (job_client env f (r_user_id r)), GenerateKeys (job_client env f (r_user_id r)),
            EncryptSerialize (job_client env f (r_user_id r)) arr,
            GetEvaluationKeys (job_client env f (r_user_id r))]))"
  proof (rule post_bnd_seq [OF post_job_preprocess])
    fix arr :: array and w2 :: "'s client_world"
    assume a: "ar_shape arr = [100, 100, 3] \<and> w2 = w1"
    show "post (job_submit env u f arr) w2
     (\<lambda>e w'. True)
     (\<lambda>r w'. r_filter_name r = f \<and>
        (\<exists>arr. calls w' = calls w @
           [Init (job_client env f (r_user_id r)), GenerateKeys (job_client env f (r_user_id r)),
            EncryptSerialize (job_client env f (r_user_id r)) arr,
            GetEvaluationKeys (job_client env f (r_user_id r))]))"
      by (rule post_weaken [OF post_job_submit]) (use a c1 in auto)
  qed simp
  with x show "post (case x of (user_id, input_image) \<Rightarrow>
      bnd (job_preprocess env input_image) (\<lambda>input_image_array.
        job_submit env user_id f input_image_array)) w1
     (\<lambda>e w'. True)
     (\<lambda>r w'. r_filter_name r = f \<and>
        (\<exists>arr. calls w' = calls w @
           [Init (job_client env f (r_user_id r)), GenerateKeys (job_client env f (r_user_id r)),
            EncryptSerialize (job_client env f (r_user_id r)) arr,
            GetEvaluationKeys (job_client env f (r_user_id r))]))" by simp
qed simp

lemma post_decrypt_output_image:
  "post (decrypt_output_image env u f oid) w
     (\<lambda>e w'. True)
     (\<lambda>loc w'. \<exists>blob.
        files w (get_client_file_path env ''output'' oid (unquote env f)) = Some blob \<and>
        calls w' = calls w @
          [Init (job_client env (unquote env f) u),
           GenerateKeys (job_client env (unquote env f) u),
           DecryptPostProcess (job_client env (unquote env f) u) blob])"
  unfolding decrypt_output_image_def job_client_def Let_def
  apply (simp only: post_simps)
  apply (simp split: prod.splits option.splits decrypted.splits)
  done

lemma unquote_plain: "CHR ''%'' \<notin> set s \<Longrightarrow> unquote env s = s"
  by (simp add: unquote_def)

subsection \<open>The example job\<close>

lemma demo_acquire:
  "job_acquire demo_client_env ''http://example.org/cat.png'' f demo_client_world =
     (Inr (''user-2'', \<lparr>im_mode = ''RGBA'', im_size = (640, 480), im_data = ''PNG''\<rparr>),
      \<lparr>files = [parse_path ''/client_tmp/img-1.jpg'' \<mapsto> ''PNG''], writable = (\<lambda>p. True), ext = 2,
        calls = [Init (job_client demo_client_env f ''user-2''),
                 GenerateKeys (job_client demo_client_env f ''user-2'')]\<rparr>)"
  by (simp add: job_acquire_def download_image_def bnd_def ret_def ext_try_def ext_call_def
      open_wb_def open_rb_def write_file_def client_call_def or_raise_def Let_def
      demo_client_env_def demo_client_world_def path_str_def job_client_def)

lemma demo_preprocess:
  "job_preprocess demo_client_env
     \<lparr>im_mode = ''RGBA'', im_size = (640, 480), im_data = ''PNG''\<rparr> w = (Inr demo_array, w)"
  by (simp add: job_preprocess_def convert_def resize_def bnd_def ret_def raise_def or_raise_def
      numpy_array_def bands_def demo_client_env_def demo_array_def)

lemma demo_submit_job:
  "job_submit demo_client_env ''user-2'' f demo_array
     \<lparr>files = m, writable = (\<lambda>p. True), ext = 2, calls = cs\<rparr> =
     (Inr \<lparr>r_user_id = ''user-2'', r_filter_name = f, r_execution_time = 0, r_output_id = ''out-3'',
           r_status = ''success''\<rparr>,
      \<lparr>files = m(get_client_file_path demo_client_env ''output'' ''out-3'' f \<mapsto> ''CIPHERTEXT''),
        writable = (\<lambda>p. True), ext = 3,
        calls = cs @ [EncryptSerialize (job_client demo_client_env f ''user-2'') demo_array,
                      GetEvaluationKeys (job_client demo_client_env f ''user-2'')]\<rparr>)"
  by (simp add: job_submit_def bnd_def ret_def ext_try_def ext_call_def
      open_wb_def write_file_def client_call_def or_raise_def
      demo_client_env_def job_client_def get_client_file_path_def)

lemma demo_job_eq:
  "demo_job f =
     (Inr \<lparr>r_user_id = ''user-2'', r_filter_name = f, r_execution_time = 0, r_output_id = ''out-3'',
           r_status = ''success''\<rparr>,
      \<lparr>files = [parse_path ''/client_tmp/img-1.jpg'' \<mapsto> ''PNG'',
                get_client_file_path demo_client_env ''output'' ''out-3'' f \<mapsto> ''CIPHERTEXT''],
        writable = (\<lambda>p. True), ext = 3,
        calls = [Init (job_client demo_client_env f ''user-2''),
                 GenerateKeys (job_client demo_client_env f ''user-2''),
                 EncryptSerialize (job_client demo_client_env f ''user-2'') demo_array,
                 GetEvaluationKeys (job_client demo_client_env f ''user-2'')]\<rparr>)"
  unfolding demo_job_def process_image_with_fhe_blocks
  by (simp add: bnd_def demo_acquire demo_preprocess demo_submit_job)

lemma char_of_65: "char_of (65 :: nat) = CHR ''A''"
  by code_simp

lemma demo_unquote: "unquote demo_client_env ''%41'' = ''A''" "unquote demo_client_env ''identity'' = ''identity''"
  by (simp_all add: unquote_def unquote_to_bytes_def unquote_item_def hexval_def demo_client_env_def char_of_65)

lemma demo_img_path:
  "parse_path ''/client_tmp/img-1.jpg'' = \<lparr>p_root = ''/'', p_parts = [''client_tmp'', ''img-1.jpg'']\<rparr>"
  by (simp add: parse_path_def path_root_of_def)

lemma demo_client_path:
  assumes "CHR ''/'' \<notin> set (n @ f @ i)"
  shows "get_client_file_path demo_client_env n i f =
           \<lparr>p_root = ''/'', p_parts = [''client_tmp'', n @ ''_'' @ f @ ''_'' @ i]\<rparr>"
  unfolding get_client_file_path_def joined_name_plain [OF assms]
  by (simp add: demo_client_env_def)

lemma demo_keys_path:
  assumes "CHR ''/'' \<notin> set (f @ u)"
  shows "path_join (KEYS_PATH demo_client_env) (f @ ''_'' @ u) =
           \<lparr>p_root = ''/'', p_parts = [''keys'', f @ ''_'' @ u]\<rparr>"
proof -
  have a: "f @ ''_'' @ u \<noteq> []" by simp
  have b: "f @ ''_'' @ u \<noteq> ''.''"
    by (cases f) auto
  have c: "CHR ''/'' \<notin> set (f @ ''_'' @ u)" using assms by simp
  show ?thesis
    unfolding path_join_plain [OF c a b] by (simp add: demo_client_env_def)
qed

lemma demo_job_fields:
  "fst (demo_job f) = Inr \<lparr>r_user_id = ''user-2'', r_filter_name = f, r_execution_time = 0,
                           r_output_id = ''out-3'', r_status = ''success''\<rparr>"
  "files (snd (demo_job f)) =
     [parse_path ''/client_tmp/img-1.jpg'' \<mapsto> ''PNG'',
      get_client_file_path demo_client_env ''output'' ''out-3'' f \<mapsto> ''CIPHERTEXT'']"
  "writable (snd (demo_job f)) = (\<lambda>p. True)"
  "ext (snd (demo_job f)) = 3"
  "calls (snd (demo_job f)) =
     [Init (job_client demo_client_env f ''user-2''),
      GenerateKeys (job_client demo_client_env f ''user-2''),
      EncryptSerialize (job_client demo_client_env f ''user-2'') demo_array,
      GetEvaluationKeys (job_client demo_client_env f ''user-2'')]"
  by (simp_all add: demo_job_eq)

lemma demo_env_sel:
  "FHEClient demo_client_env = (\<lambda>c s. (Some (), s))"
  "generate_private_and_evaluation_keys demo_client_env = (\<lambda>c s. (Some (), s))"
  "deserialize_decrypt_post_process demo_client_env =
     (\<lambda>c b s. (Some (DArray \<lparr>ar_shape = [100, 100, 3], ar_data = b\<rparr>), s))"
  "astype_uint8 demo_client_env = Some"
  "Image_fromarray demo_client_env =
     (\<lambda>a. Some \<lparr>im_mode = ''RGB'', im_size = (100, 100), im_data = ar_data a\<rparr>)"
  "jpeg_encode demo_client_env = (\<lambda>img. Some (im_data img))"
  "uuid4 demo_client_env 3 = (''tmp-4'', 4)"
  by (simp_all add: demo_client_env_def)

lemma demo_decrypt_post:
  "post (decrypt_output_image demo_client_env ''user-2'' ''identity'' ''out-3'')
     (snd (demo_job ''identity''))
     (\<lambda>e w'. False)
     (\<lambda>loc w'. loc = ''http://localhost:8000/test/image/temp_jpg_tmp-4_identity_user-2.jpeg'')"
  unfolding decrypt_output_image_def Let_def demo_unquote
  apply (simp only: post_simps)
  apply (simp add: demo_job_fields demo_client_path demo_img_path demo_env_sel path_name_def
      FHE_SERVER_URL_def)
  done

lemma demo_decrypt_41_post:
  "post (decrypt_output_image demo_client_env ''user-2'' ''%41'' ''out-3'')
     (snd (demo_job ''%41''))
     (\<lambda>e w'. e = FileNotFoundError \<and>
        calls w' = calls (snd (demo_job ''%41'')) @
          [Init (job_client demo_client_env ''A'' ''user-2''),
           GenerateKeys (job_client demo_client_env ''A'' ''user-2'')])
     (\<lambda>loc w'. False)"
  unfolding decrypt_output_image_def Let_def demo_unquote
  apply (simp only: post_simps)
  apply (simp add: demo_job_fields demo_client_path demo_img_path demo_env_sel job_client_def)
  done

lemma demo_job_pair:
  "process_image_with_fhe demo_client_env ''http://example.org/cat.png'' f demo_client_world =
     (Inr \<lparr>r_user_id = ''user-2'', r_filter_name = f, r_execution_time = 0,
           r_output_id = ''out-3'', r_status = ''success''\<rparr>, snd (demo_job f))"
  using demo_job_fields(1) [of f] by (simp add: demo_job_def prod_eq_iff)

lemma demo_key_dirs:
  "key_dir (job_client demo_client_env ''identity'' ''user-2'') =
     \<lparr>p_root = ''/'', p_parts = [''keys'', ''identity_user-2'']\<rparr>"
  "key_dir (job_client demo_client_env ''%41'' ''user-2'') =
     \<lparr>p_root = ''/'', p_parts = [''keys'', ''%41_user-2'']\<rparr>"
  "key_dir (job_client demo_client_env ''A'' ''user-2'') =
     \<lparr>p_root = ''/'', p_parts = [''keys'', ''A_user-2'']\<rparr>"
  using demo_keys_path [of "''identity''" "''user-2''"] demo_keys_path [of "''%41''" "''user-2''"]
    demo_keys_path [of "''A''" "''user-2''"]
  by (simp_all add: job_client_def)

section \<open>Claims on the storage locations\<close>

text \<open>
  Claim C1, as amended. \<open>get_server_file_path\<close> and \<open>get_client_file_path\<close> join kind,
  filter and identity with underscores under the temporary directory. On triples
  without a slash, whose filter and identity hold no underscore, two paths are equal
  exactly when the triples are equal.
\<close>

theorem file_path_injective:
  assumes "CHR ''/'' \<notin> set (n1 @ f1 @ u1)" "CHR ''/'' \<notin> set (n2 @ f2 @ u2)"
    and "CHR ''_'' \<notin> set (f1 @ u1)" "CHR ''_'' \<notin> set (f2 @ u2)"
  shows "(get_server_file_path env n1 u1 f1 = get_server_file_path env n2 u2 f2
            \<longleftrightarrow> (n1, f1, u1) = (n2, f2, u2)) \<and>
         (get_client_file_path env n1 u1 f1 = get_client_file_path env n2 u2 f2
            \<longleftrightarrow> (n1, f1, u1) = (n2, f2, u2))"
proof -
  have inj: "path_join p (n1 @ ''_'' @ f1 @ ''_'' @ u1) = path_join p (n2 @ ''_'' @ f2 @ ''_'' @ u2)
               \<longleftrightarrow> n1 @ ''_'' @ f1 @ ''_'' @ u1 = n2 @ ''_'' @ f2 @ ''_'' @ u2" for p
    unfolding joined_name_plain [OF assms(1)] joined_name_plain [OF assms(2)] by simp
  have names: "n1 @ ''_'' @ f1 @ ''_'' @ u1 = n2 @ ''_'' @ f2 @ ''_'' @ u2
               \<longleftrightarrow> (n1, f1, u1) = (n2, f2, u2)"
    using joined_name_inj [OF assms(3,4), of n1 n2] by auto
  show ?thesis
    unfolding get_server_file_path_def get_client_file_path_def inj names by simp
qed

text \<open>An instance of C1 as amended: two kinds, and two output identifiers, give two paths.\<close>

theorem file_path_injective_witness:
  "(get_server_file_path demo_common ''encrypted_image'' ''u1'' ''identity'' =
      get_server_file_path demo_common ''evaluation_key'' ''u1'' ''identity''
        \<longleftrightarrow> (''encrypted_image'', ''identity'', ''u1'') = (''evaluation_key'', ''identity'', ''u1'')) \<and>
   (get_client_file_path demo_common ''output'' ''o1'' ''identity'' =
      get_client_file_path demo_common ''output'' ''o2'' ''identity''
        \<longleftrightarrow> (''output'', ''identity'', ''o1'') = (''output'', ''identity'', ''o2''))"
proof -
  have a: "CHR ''/'' \<notin> set (''encrypted_image'' @ ''identity'' @ ''u1'')" by simp
  have b: "CHR ''/'' \<notin> set (''evaluation_key'' @ ''identity'' @ ''u1'')" by simp
  have c: "CHR ''_'' \<notin> set (''identity'' @ ''u1'')" by simp
  have a': "CHR ''/'' \<notin> set (''output'' @ ''identity'' @ ''o1'')" by simp
  have b': "CHR ''/'' \<notin> set (''output'' @ ''identity'' @ ''o2'')" by simp
  have c1: "CHR ''_'' \<notin> set (''identity'' @ ''o1'')" by simp
  have c2: "CHR ''_'' \<notin> set (''identity'' @ ''o2'')" by simp
  note s = file_path_injective [OF a b c c, of demo_common, THEN conjunct1]
  note t = file_path_injective [OF a' b' c1 c2, of demo_common, THEN conjunct2]
  show ?thesis by (rule conjI [OF s t])
qed

text \<open>
  Claim C1 as stated fails: the filter \<open>a_b\<close> with identity \<open>c\<close> and the filter \<open>a\<close> with
  identity \<open>b_c\<close> give one path, on the server and on the client, and so do the
  identities \<open>u/\<close> and \<open>u\<close>.
\<close>

theorem file_path_collision:
  "get_server_file_path demo_common ''encrypted_image'' ''c'' ''a_b'' =
     get_server_file_path demo_common ''encrypted_image'' ''b_c'' ''a'' \<and>
   (''encrypted_image'', ''a_b'', ''c'') \<noteq> (''encrypted_image'', ''a'', ''b_c'') \<and>
   get_client_file_path demo_common ''output'' ''c'' ''a_b'' =
     get_client_file_path demo_common ''output'' ''b_c'' ''a'' \<and>
   (''output'', ''a_b'', ''c'') \<noteq> (''output'', ''a'', ''b_c'') \<and>
   get_server_file_path demo_common ''encrypted_image'' ''u/'' ''a'' =
     get_server_file_path demo_common ''encrypted_image'' ''u'' ''a'' \<and>
   (''encrypted_image'', ''a'', ''u/'') \<noteq> (''encrypted_image'', ''a'', ''u'')"
  by (simp add: get_server_file_path_def get_client_file_path_def demo_common_def
      path_join_def parse_path_def path_root_of_def)


section \<open>Claims on the session protocol of the server\<close>

text \<open>
  Claim C2. For every user, filter and upload, in every world, \<open>fhe_full\<close> has the outcome
  and leaves the world of \<open>send_input\<close>, \<open>run_fhe\<close> and \<open>get_output\<close> called in sequence
  with the same arguments: the same output bytes, the same stored artifacts, the same
  exception when a stage fails, and the elapsed time of \<open>run_fhe\<close> as its header.
\<close>

theorem fhe_full_is_three_stages:
  "fhe_full env user_id filter_name upload =
     bnd (three_stages env user_id filter_name upload)
       (\<lambda>(encrypted_output, elapsed).
          ret (encrypted_output, [(''X-FHE-Execution-Time'', float_str env elapsed)]))"
  by (simp add: fhe_full_def three_stages_def send_input_def run_fhe_def get_output_def
      Let_def bnd_assoc bnd_ret)

text \<open>
  Claim C3. When an input artifact of the key (user, filter) is missing, as it is before
  any \<open>send_input\<close>, \<open>run_fhe\<close> fails with \<open>FileNotFoundError\<close> (ArtifactNotFound) and
  changes nothing; when the output artifact is missing, as it is before \<open>run_fhe\<close> has
  completed, \<open>get_output\<close> fails with \<open>FileNotFoundError\<close>.
\<close>

theorem run_fhe_get_output_missing:
  "(files w (get_server_file_path env ''encrypted_image'' user_id filter_name) = None \<or>
    files w (get_server_file_path env ''evaluation_key'' user_id filter_name) = None
      \<longrightarrow> run_fhe env user_id filter_name w = (Inl FileNotFoundError, w)) \<and>
   (files w (get_server_file_path env ''encrypted_output'' user_id filter_name) = None
      \<longrightarrow> get_output env user_id filter_name w = (Inl FileNotFoundError, w))"
  by (auto simp: run_fhe_cases get_output_cases split: option.splits)

text \<open>An instance of C3: a fresh key in the empty store.\<close>

theorem run_fhe_get_output_missing_witness:
  "files demo_world (get_server_file_path demo_server_env ''encrypted_image'' ''u2'' ''identity'') = None \<and>
   files demo_world (get_server_file_path demo_server_env ''encrypted_output'' ''u2'' ''identity'') = None \<and>
   run_fhe demo_server_env ''u2'' ''identity'' demo_world = (Inl FileNotFoundError, demo_world) \<and>
   get_output demo_server_env ''u2'' ''identity'' demo_world = (Inl FileNotFoundError, demo_world)"
proof -
  have h: "files demo_world p = None" for p by (simp add: demo_world_def)
  show ?thesis
    using run_fhe_get_output_missing [of demo_world demo_server_env "''u2''" "''identity''"]
    by (simp add: h)
qed

text \<open>
  Claim C4, as amended. For a filter that is not in \<open>AVAILABLE_FILTERS\<close>, \<open>run_fhe\<close> fails
  and changes nothing: with \<open>KeyError\<close> (UnknownFilter) when both input artifacts of the
  key are stored, and with \<open>FileNotFoundError\<close> (ArtifactNotFound) otherwise, since the
  artifacts are read before the registry is consulted.
\<close>

theorem run_fhe_unknown_filter:
  "filter_name \<notin> set (AVAILABLE_FILTERS env) \<Longrightarrow>
   run_fhe env user_id filter_name w =
     (if files w (get_server_file_path env ''encrypted_image'' user_id filter_name) = None \<or>
         files w (get_server_file_path env ''evaluation_key'' user_id filter_name) = None
      then (Inl FileNotFoundError, w) else (Inl (KeyError filter_name), w))"
  by (auto simp: run_fhe_cases FHE_SERVERS_lookup split: option.splits)

text \<open>An instance of C4 as amended: an unknown filter after a submit for the same key.\<close>

theorem run_fhe_unknown_filter_witness:
  "''sepia'' \<notin> set (AVAILABLE_FILTERS demo_server_env) \<and>
   run_fhe demo_server_env ''u1'' ''sepia'' (demo_submit ''u1'' ''sepia'' [''B1'', ''K1''] demo_world) =
     (Inl (KeyError ''sepia''), demo_submit ''u1'' ''sepia'' [''B1'', ''K1''] demo_world)"
proof -
  have h: "''sepia'' \<notin> set (AVAILABLE_FILTERS demo_server_env)"
    by (simp add: demo_server_env_def)
  show ?thesis
    using run_fhe_unknown_filter [OF h, of "''u1''" "demo_submit ''u1'' ''sepia'' [''B1'', ''K1''] demo_world"]
      input_paths_distinct [of demo_server_env "''u1''" "''sepia''"] h
    by (simp add: demo_submit_eq)
qed

text \<open>
  Claim C4 as stated fails: for an unknown filter and a fresh key, \<open>run_fhe\<close> fails with
  \<open>FileNotFoundError\<close>, not with \<open>KeyError\<close>.
\<close>

theorem run_fhe_unknown_filter_fresh:
  "''sepia'' \<notin> set (AVAILABLE_FILTERS demo_server_env) \<and>
   run_fhe demo_server_env ''u2'' ''sepia'' demo_world = (Inl FileNotFoundError, demo_world) \<and>
   fst (run_fhe demo_server_env ''u2'' ''sepia'' demo_world) \<noteq> Inl (KeyError ''sepia'')"
  by (simp add: run_fhe_cases demo_world_def demo_server_env_def)

text \<open>
  Claim C5. After two successful calls of \<open>send_input\<close> for one key, the world is the one
  the second call alone would have left, both input artifacts hold the second payload,
  and \<open>run_fhe\<close> applies the engine to the second payload only.
\<close>

theorem send_input_last_write_wins:
  assumes "send_input env user_id filter_name upload1 w = (Inr (), w1)"
    and "send_input env user_id filter_name upload2 w1 = (Inr (), w2)"
  shows "send_input env user_id filter_name upload2 w = (Inr (), w2) \<and>
         files w2 (get_server_file_path env ''encrypted_image'' user_id filter_name) = Some (upload2 ! 0) \<and>
         files w2 (get_server_file_path env ''evaluation_key'' user_id filter_name) = Some (upload2 ! 1) \<and>
         run_fhe env user_id filter_name w2 =
           (case FHE_SERVERS env filter_name of
              None \<Rightarrow> (Inl (KeyError filter_name), w2)
            | Some srv \<Rightarrow>
           (case time_time env (ext w2) of (t0, s1) \<Rightarrow>
           (case srv (upload2 ! 0) (upload2 ! 1) of
              None \<Rightarrow> (Inl ComputeEngineError, w2\<lparr>ext := s1\<rparr>)
            | Some out \<Rightarrow>
           (case time_time env s1 of (t1, s2) \<Rightarrow>
              if writable w2 (get_server_file_path env ''encrypted_output'' user_id filter_name)
              then (Inr (round_elapsed env t1 t0),
                    w2\<lparr>ext := s2,
                       files := (files w2)
                         (get_server_file_path env ''encrypted_output'' user_id filter_name \<mapsto> out)\<rparr>)
              else (Inl OSError, w2\<lparr>ext := s2\<rparr>)))))"
proof -
  let ?pi = "get_server_file_path env ''encrypted_image'' user_id filter_name"
  let ?pk = "get_server_file_path env ''evaluation_key'' user_id filter_name"
  have d: "?pi \<noteq> ?pk" by (rule input_paths_distinct)
  from assms(1) have 1: "writable w ?pi" "writable w ?pk"
    "w1 = w\<lparr>files := (files w)(?pi \<mapsto> upload1 ! 0, ?pk \<mapsto> upload1 ! 1)\<rparr>"
    by (simp_all add: send_input_ok_iff)
  from assms(2) have 2: "2 \<le> length upload2"
    "w2 = w1\<lparr>files := (files w1)(?pi \<mapsto> upload2 ! 0, ?pk \<mapsto> upload2 ! 1)\<rparr>"
    by (simp_all add: send_input_ok_iff)
  have w2: "w2 = w\<lparr>files := (files w)(?pi \<mapsto> upload2 ! 0, ?pk \<mapsto> upload2 ! 1)\<rparr>"
    unfolding 2(2) 1(3) using two_updates_twice [OF d] by simp
  have a: "send_input env user_id filter_name upload2 w = (Inr (), w2)"
    using 1(1,2) 2(1) w2 by (simp add: send_input_ok_iff)
  have b: "files w2 ?pi = Some (upload2 ! 0)" "files w2 ?pk = Some (upload2 ! 1)"
    using d by (simp_all add: w2)
  have c: "run_fhe env user_id filter_name w2 =
           (case FHE_SERVERS env filter_name of
              None \<Rightarrow> (Inl (KeyError filter_name), w2)
            | Some srv \<Rightarrow>
           (case time_time env (ext w2) of (t0, s1) \<Rightarrow>
           (case srv (upload2 ! 0) (upload2 ! 1) of
              None \<Rightarrow> (Inl ComputeEngineError, w2\<lparr>ext := s1\<rparr>)
            | Some out \<Rightarrow>
           (case time_time env s1 of (t1, s2) \<Rightarrow>
              if writable w2 (get_server_file_path env ''encrypted_output'' user_id filter_name)
              then (Inr (round_elapsed env t1 t0),
                    w2\<lparr>ext := s2,
                       files := (files w2)
                         (get_server_file_path env ''encrypted_output'' user_id filter_name \<mapsto> out)\<rparr>)
              else (Inl OSError, w2\<lparr>ext := s2\<rparr>)))))"
    unfolding run_fhe_cases [of env user_id filter_name w2] b
    by (simp split: option.splits prod.splits)
  from a b c show ?thesis by blast
qed

text \<open>An instance of C5: two submits of different payloads for one key.\<close>

theorem send_input_last_write_wins_witness:
  "send_input demo_server_env ''u1'' ''identity'' [''B1'', ''K1''] demo_world =
     (Inr (), demo_submit ''u1'' ''identity'' [''B1'', ''K1''] demo_world) \<and>
   send_input demo_server_env ''u1'' ''identity'' [''B2'', ''K2'']
       (demo_submit ''u1'' ''identity'' [''B1'', ''K1''] demo_world) =
     (Inr (), demo_submit ''u1'' ''identity'' [''B2'', ''K2'']
                (demo_submit ''u1'' ''identity'' [''B1'', ''K1''] demo_world)) \<and>
   send_input demo_server_env ''u1'' ''identity'' [''B2'', ''K2''] demo_world =
     (Inr (), demo_submit ''u1'' ''identity'' [''B2'', ''K2'']
                (demo_submit ''u1'' ''identity'' [''B1'', ''K1''] demo_world)) \<and>
   files (demo_submit ''u1'' ''identity'' [''B2'', ''K2'']
            (demo_submit ''u1'' ''identity'' [''B1'', ''K1''] demo_world))
       (get_server_file_path demo_server_env ''encrypted_image'' ''u1'' ''identity'') = Some ''B2'' \<and>
   files (demo_submit ''u1'' ''identity'' [''B2'', ''K2'']
            (demo_submit ''u1'' ''identity'' [''B1'', ''K1''] demo_world))
       (get_server_file_path demo_server_env ''evaluation_key'' ''u1'' ''identity'') = Some ''K2''"
proof -
  have w0: "writable demo_world = (\<lambda>p. True)" by (simp add: demo_world_def)
  have h1: "send_input demo_server_env ''u1'' ''identity'' [''B1'', ''K1''] demo_world =
     (Inr (), demo_submit ''u1'' ''identity'' [''B1'', ''K1''] demo_world)"
    by (rule demo_submit_ok [OF w0]) simp
  have w1: "writable (demo_submit ''u1'' ''identity'' [''B1'', ''K1''] demo_world) = (\<lambda>p. True)"
    by (simp add: demo_submit_writable w0)
  have h2: "send_input demo_server_env ''u1'' ''identity'' [''B2'', ''K2'']
       (demo_submit ''u1'' ''identity'' [''B1'', ''K1''] demo_world) =
     (Inr (), demo_submit ''u1'' ''identity'' [''B2'', ''K2'']
                (demo_submit ''u1'' ''identity'' [''B1'', ''K1''] demo_world))"
    by (rule demo_submit_ok [OF w1]) simp
  show ?thesis
    using send_input_last_write_wins [OF h1 h2] h1 h2 by simp
qed

text \<open>
  Claim C9. \<open>send_input\<close> never raises \<open>KeyError\<close> (UnknownFilter), its outcome does not
  depend on \<open>AVAILABLE_FILTERS\<close> or on the engines, and for every filter name, in the
  list or not, it succeeds and stores both artifacts whenever the two files can be
  opened for writing and two files were uploaded.
\<close>

theorem send_input_no_filter_check:
  "(\<forall>k. fst (send_input env user_id filter_name upload w) \<noteq> Inl (KeyError k)) \<and>
   send_input (env\<lparr>AVAILABLE_FILTERS := fs, FHEServer := srv\<rparr>) user_id filter_name upload w =
     send_input env user_id filter_name upload w \<and>
   (writable w (get_server_file_path env ''encrypted_image'' user_id filter_name) \<and>
    writable w (get_server_file_path env ''evaluation_key'' user_id filter_name) \<and>
    2 \<le> length upload \<longrightarrow>
      send_input env user_id filter_name upload w =
        (Inr (), w\<lparr>files := (files w)
           (get_server_file_path env ''encrypted_image'' user_id filter_name \<mapsto> upload ! 0,
            get_server_file_path env ''evaluation_key'' user_id filter_name \<mapsto> upload ! 1)\<rparr>))"
proof -
  have a: "\<forall>k. fst (send_input env user_id filter_name upload w) \<noteq> Inl (KeyError k)"
    by (simp add: send_input_cases Let_def)
  have b: "send_input (env\<lparr>AVAILABLE_FILTERS := fs, FHEServer := srv\<rparr>) user_id filter_name upload w =
     send_input env user_id filter_name upload w"
    by (simp add: send_input_def get_server_file_path_def)
  from a b show ?thesis by (simp add: send_input_ok_iff)
qed

text \<open>An instance of C9: a submit for a filter that is not in the list.\<close>

theorem send_input_no_filter_check_witness:
  "''sepia'' \<notin> set (AVAILABLE_FILTERS demo_server_env) \<and>
   send_input demo_server_env ''u1'' ''sepia'' [''B1'', ''K1''] demo_world =
     (Inr (), demo_world\<lparr>files := (files demo_world)
        (get_server_file_path demo_server_env ''encrypted_image'' ''u1'' ''sepia'' \<mapsto> ''B1'',
         get_server_file_path demo_server_env ''evaluation_key'' ''u1'' ''sepia'' \<mapsto> ''K1'')\<rparr>)"
proof -
  have w0: "writable demo_world p" for p by (simp add: demo_world_def)
  have f: "''sepia'' \<notin> set (AVAILABLE_FILTERS demo_server_env)"
    by (simp add: demo_server_env_def)
  show ?thesis
    using send_input_no_filter_check
      [where env = demo_server_env and user_id = "''u1''" and filter_name = "''sepia''"
         and upload = "[''B1'', ''K1'']" and w = demo_world] f
    by (simp add: w0)
qed


section \<open>Claims on the client\<close>

text \<open>
  Claim C6, as amended. After a job that returned \<open>r\<close> for the filter name \<open>f\<close>, a
  successful \<open>decrypt_output_image\<close> on the user, filter and output identifiers of \<open>r\<close>
  has constructed its \<open>FHEClient\<close> from the URL-decoded filter name \<open>unquote f\<close> and the
  user identifier, called \<open>generate_private_and_evaluation_keys\<close> on it, and only then
  decrypted the artifact stored for the output identifier and the decoded name; the
  job had constructed its client from \<open>f\<close> itself. The two clients, and so the two key
  directories, are the same when \<open>f\<close> holds no percent sign.
\<close>

theorem decrypt_rederives_key_dir:
  assumes job: "process_image_with_fhe env url f (w :: 's client_world) = (Inr r, w1)"
    and dec: "decrypt_output_image env (r_user_id r) (r_filter_name r) (r_output_id r) w2 =
                (Inr loc, w3)"
  shows "\<exists>arr blob.
           calls w1 = calls w @
             [Init (job_client env f (r_user_id r)), GenerateKeys (job_client env f (r_user_id r)),
              EncryptSerialize (job_client env f (r_user_id r)) arr,
              GetEvaluationKeys (job_client env f (r_user_id r))] \<and>
           files w2 (get_client_file_path env ''output'' (r_output_id r) (unquote env f)) =
             Some blob \<and>
           calls w3 = calls w2 @
             [Init (job_client env (unquote env f) (r_user_id r)),
              GenerateKeys (job_client env (unquote env f) (r_user_id r)),
              DecryptPostProcess (job_client env (unquote env f) (r_user_id r)) blob] \<and>
           (CHR ''%'' \<notin> set f \<longrightarrow> unquote env f = f)"
proof -
  from post_job_calls [of env url f w] job
  have f: "r_filter_name r = f"
    and "\<exists>arr. calls w1 = calls w @
           [Init (job_client env f (r_user_id r)), GenerateKeys (job_client env f (r_user_id r)),
            EncryptSerialize (job_client env f (r_user_id r)) arr,
            GetEvaluationKeys (job_client env f (r_user_id r))]"
    by (simp_all add: post_def)
  then obtain arr where j: "calls w1 = calls w @
           [Init (job_client env f (r_user_id r)), GenerateKeys (job_client env f (r_user_id r)),
            EncryptSerialize (job_client env f (r_user_id r)) arr,
            GetEvaluationKeys (job_client env f (r_user_id r))]" by blast
  from post_decrypt_output_image [of env "r_user_id r" f "r_output_id r" w2] dec f
  obtain blob where d: "files w2 (get_client_file_path env ''output'' (r_output_id r) (unquote env f)) = Some blob"
      "calls w3 = calls w2 @
          [Init (job_client env (unquote env f) (r_user_id r)),
           GenerateKeys (job_client env (unquote env f) (r_user_id r)),
           DecryptPostProcess (job_client env (unquote env f) (r_user_id r)) blob]"
    by (auto simp: post_def)
  have "CHR ''%'' \<notin> set f \<longrightarrow> unquote env f = f" by (simp add: unquote_plain)
  with j d show ?thesis by blast
qed

text \<open>
  An instance of C6 as amended: the example job for the filter \<open>identity\<close>, then the
  decryption of its output.
\<close>

theorem decrypt_rederives_key_dir_witness:
  "fst (demo_job ''identity'') =
     Inr \<lparr>r_user_id = ''user-2'', r_filter_name = ''identity'', r_execution_time = 0,
           r_output_id = ''out-3'', r_status = ''success''\<rparr> \<and>
   fst (decrypt_output_image demo_client_env ''user-2'' ''identity'' ''out-3''
          (snd (demo_job ''identity''))) =
     Inr ''http://localhost:8000/test/image/temp_jpg_tmp-4_identity_user-2.jpeg'' \<and>
   calls (snd (decrypt_output_image demo_client_env ''user-2'' ''identity'' ''out-3''
                 (snd (demo_job ''identity'')))) =
     calls (snd (demo_job ''identity'')) @
       [Init (job_client demo_client_env ''identity'' ''user-2''),
        GenerateKeys (job_client demo_client_env ''identity'' ''user-2''),
        DecryptPostProcess (job_client demo_client_env ''identity'' ''user-2'') ''CIPHERTEXT''] \<and>
   calls (snd (demo_job ''identity'')) =
       [Init (job_client demo_client_env ''identity'' ''user-2''),
        GenerateKeys (job_client demo_client_env ''identity'' ''user-2''),
        EncryptSerialize (job_client demo_client_env ''identity'' ''user-2'') demo_array,
        GetEvaluationKeys (job_client demo_client_env ''identity'' ''user-2'')] \<and>
   key_dir (job_client demo_client_env ''identity'' ''user-2'') =
     \<lparr>p_root = ''/'', p_parts = [''keys'', ''identity_user-2'']\<rparr>"
proof -
  let ?r = "\<lparr>r_user_id = ''user-2'', r_filter_name = ''identity'', r_execution_time = 0,
             r_output_id = ''out-3'', r_status = ''success''\<rparr>"
  let ?d = "decrypt_output_image demo_client_env ''user-2'' ''identity'' ''out-3''
              (snd (demo_job ''identity''))"
  let ?loc = "''http://localhost:8000/test/image/temp_jpg_tmp-4_identity_user-2.jpeg''"
  have ok: "fst ?d = Inr ?loc"
    using demo_decrypt_post unfolding post_fst_snd by (simp split: sum.splits)
  have dec: "decrypt_output_image demo_client_env (r_user_id ?r) (r_filter_name ?r)
               (r_output_id ?r) (snd (demo_job ''identity'')) = (Inr ?loc, snd ?d)"
    using ok by (simp add: prod_eq_iff)
  have stored: "files (snd (demo_job ''identity''))
                (get_client_file_path demo_client_env ''output'' ''out-3'' ''identity'') =
              Some ''CIPHERTEXT''"
    by (simp add: demo_job_fields)
  from decrypt_rederives_key_dir [OF demo_job_pair dec] stored
  have "calls (snd ?d) = calls (snd (demo_job ''identity'')) @
       [Init (job_client demo_client_env ''identity'' ''user-2''),
        GenerateKeys (job_client demo_client_env ''identity'' ''user-2''),
        DecryptPostProcess (job_client demo_client_env ''identity'' ''user-2'') ''CIPHERTEXT'']"
    by (auto simp: demo_unquote)
  then show ?thesis
    using ok by (simp add: demo_job_fields demo_key_dirs)
qed

text \<open>
  Claim C6 as the specification states it, for every filter name, fails at the filter
  name \<open>%41\<close>: the job generates its keys in \<open>/keys/%41_user-2\<close> and stores its output
  under \<open>%41\<close>; the decryption decodes the name to \<open>A\<close>, generates keys in
  \<open>/keys/A_user-2\<close>, and finds no artifact.
\<close>

theorem decrypt_unquotes_filter_name:
  "fst (demo_job ''%41'') =
     Inr \<lparr>r_user_id = ''user-2'', r_filter_name = ''%41'', r_execution_time = 0,
           r_output_id = ''out-3'', r_status = ''success''\<rparr> \<and>
   calls (snd (demo_job ''%41'')) =
       [Init (job_client demo_client_env ''%41'' ''user-2''),
        GenerateKeys (job_client demo_client_env ''%41'' ''user-2''),
        EncryptSerialize (job_client demo_client_env ''%41'' ''user-2'') demo_array,
        GetEvaluationKeys (job_client demo_client_env ''%41'' ''user-2'')] \<and>
   fst (decrypt_output_image demo_client_env ''user-2'' ''%41'' ''out-3''
          (snd (demo_job ''%41''))) = Inl FileNotFoundError \<and>
   calls (snd (decrypt_output_image demo_client_env ''user-2'' ''%41'' ''out-3''
                 (snd (demo_job ''%41'')))) =
     calls (snd (demo_job ''%41'')) @
       [Init (job_client demo_client_env ''A'' ''user-2''),
        GenerateKeys (job_client demo_client_env ''A'' ''user-2'')] \<and>
   key_dir (job_client demo_client_env ''%41'' ''user-2'') =
     \<lparr>p_root = ''/'', p_parts = [''keys'', ''%41_user-2'']\<rparr> \<and>
   key_dir (job_client demo_client_env ''A'' ''user-2'') =
     \<lparr>p_root = ''/'', p_parts = [''keys'', ''A_user-2'']\<rparr>"
  using demo_decrypt_41_post unfolding post_fst_snd
  by (simp add: demo_job_fields demo_key_dirs split: sum.splits)

text \<open>
  Claim C8. \<open>process_image_with_fhe\<close> never raises the exception of its shape check,
  and every array it hands to \<open>encrypt_serialize\<close> has the shape (100, 100, 3): the
  image is converted to RGB unless it is RGB, and resized to 100 by 100 unless it has
  that size, before the array is taken.
\<close>

theorem process_image_shape_check:
  "(\<forall>s. fst (process_image_with_fhe env url f (w :: 's client_world)) \<noteq> Inl (AssertionError s)) \<and>
   (\<forall>c a. EncryptSerialize c a \<in> set (calls (snd (process_image_with_fhe env url f w))) \<longrightarrow>
      EncryptSerialize c a \<in> set (calls w) \<or> ar_shape a = [100, 100, 3])"
proof -
  let ?G = "\<lambda>w'. \<exists>cs. calls w' = calls w @ cs \<and>
              (\<forall>c a. EncryptSerialize c a \<in> set cs \<longrightarrow> ar_shape a = [100, 100, 3])"
  have "post (process_image_with_fhe env url f) w
          (\<lambda>e w'. (\<forall>s. e \<noteq> AssertionError s) \<and> ?G w') (\<lambda>r w'. ?G w')"
    unfolding process_image_with_fhe_blocks
  proof (rule post_bnd_seq [OF post_job_acquire])
    fix e w'
    assume "e \<noteq> ValueError \<and> (\<forall>s. e \<noteq> AssertionError s) \<and>
      (\<exists>cs. calls w' = calls w @ cs \<and> (\<forall>c a. EncryptSerialize c a \<notin> set cs))"
    then show "(\<forall>s. e \<noteq> AssertionError s) \<and> ?G w'" by blast
  next
    fix x :: "string \<times> image" and w1 :: "'s client_world"
    assume r: "(case x of (u, img) \<Rightarrow> \<lambda>w'. calls w' =
      calls w @ [Init (job_client env f u), GenerateKeys (job_client env f u)]) w1"
    obtain u img where x: "x = (u, img)" by (cases x)
    from r x have c1: "calls w1 =
      calls w @ [Init (job_client env f u), GenerateKeys (job_client env f u)]" by simp
    have g1: "?G w1" using c1 by simp
    have "post (bnd (job_preprocess env img) (\<lambda>arr. job_submit env u f arr)) w1
            (\<lambda>e w'. (\<forall>s. e \<noteq> AssertionError s) \<and> ?G w') (\<lambda>r w'. ?G w')"
    proof (rule post_bnd_seq [OF post_job_preprocess])
      fix e and w' :: "'s client_world"
      assume "e = ImageError \<and> w' = w1"
      with g1 show "(\<forall>s. e \<noteq> AssertionError s) \<and> ?G w'" by simp
    next
      fix arr :: array and w2 :: "'s client_world"
      assume a: "ar_shape arr = [100, 100, 3] \<and> w2 = w1"
      show "post (job_submit env u f arr) w2
              (\<lambda>e w'. (\<forall>s. e \<noteq> AssertionError s) \<and> ?G w') (\<lambda>r w'. ?G w')"
      proof (rule post_weaken [OF post_job_submit])
        fix e w'
        assume "(\<forall>s. e \<noteq> AssertionError s) \<and>
          (\<exists>cs. calls w' = calls w2 @ cs \<and> (\<forall>c a'. EncryptSerialize c a' \<in> set cs \<longrightarrow> a' = arr))"
        then show "(\<forall>s. e \<noteq> AssertionError s) \<and> ?G w'"
          using a c1 by auto
      next
        fix r w'
        assume "r_user_id r = u \<and> r_filter_name r = f \<and> r_status r = ''success'' \<and>
          calls w' = calls w2 @ [EncryptSerialize (job_client env f u) arr,
                                GetEvaluationKeys (job_client env f u)] \<and>
          files w' (get_client_file_path env ''output'' (r_output_id r) f) \<noteq> None"
        then show "?G w'" using a c1 by auto
      qed
    qed
    with x show "post (case x of (user_id, input_image) \<Rightarrow>
        bnd (job_preprocess env input_image) (\<lambda>input_image_array.
          job_submit env user_id f input_image_array)) w1
        (\<lambda>e w'. (\<forall>s. e \<noteq> AssertionError s) \<and> ?G w') (\<lambda>r w'. ?G w')" by simp
  qed
  then show ?thesis
    unfolding post_fst_snd by (auto split: sum.splits)
qed

text \<open>
  An instance of C8: the example job, whose image arrives as RGBA of 640 by 480.
\<close>

theorem process_image_shape_check_witness:
  "fst (demo_job ''identity'') \<noteq> Inl (AssertionError [480, 640, 4]) \<and>
   EncryptSerialize (job_client demo_client_env ''identity'' ''user-2'') demo_array
     \<in> set (calls (snd (demo_job ''identity''))) \<and>
   EncryptSerialize (job_client demo_client_env ''identity'' ''user-2'') demo_array
     \<notin> set (calls demo_client_world) \<and>
   ar_shape demo_array = [100, 100, 3]"
proof -
  note t = process_image_shape_check [of demo_client_env "''http://example.org/cat.png''"
      "''identity''" demo_client_world, folded demo_job_def]
  have a: "EncryptSerialize (job_client demo_client_env ''identity'' ''user-2'') demo_array
             \<in> set (calls (snd (demo_job ''identity'')))"
    by (simp add: demo_job_fields)
  have b: "EncryptSerialize (job_client demo_client_env ''identity'' ''user-2'') demo_array
             \<notin> set (calls demo_client_world)"
    by (simp add: demo_client_world_def)
  from t [THEN conjunct2, rule_format, OF a] b
  have c: "ar_shape demo_array = [100, 100, 3]" by simp
  from t [THEN conjunct1, rule_format, of "[480, 640, 4]"] a b c show ?thesis by simp
qed

text \<open>
  Claim C10. When no response of the server carries the header
  \<open>X-FHE-Execution-Time\<close>, \<open>process_image_with_fhe\<close> never raises the \<open>ValueError\<close> of
  \<open>float\<close>, and every result it returns has the execution time 0 and the status
  \<open>success\<close>.
\<close>

theorem missing_time_header_defaults:
  assumes h: "\<forall>u d fs s r s'. requests_post env u d fs s = (Some r, s') \<longrightarrow>
             headers_get r ''X-FHE-Execution-Time'' = None"
  shows "fst (process_image_with_fhe env url f (w :: 's client_world)) \<noteq> Inl ValueError \<and>
         (\<forall>r. fst (process_image_with_fhe env url f w) = Inr r \<longrightarrow>
            r_execution_time r = 0 \<and> r_status r = ''success'')"
proof -
  have "post (process_image_with_fhe env url f) w
          (\<lambda>e w'. e \<noteq> ValueError) (\<lambda>r w'. r_execution_time r = 0 \<and> r_status r = ''success'')"
    unfolding process_image_with_fhe_blocks
  proof (rule post_bnd_seq [OF post_job_acquire])
    fix e w'
    assume "e \<noteq> ValueError \<and> (\<forall>s. e \<noteq> AssertionError s) \<and>
      (\<exists>cs. calls w' = calls w @ cs \<and> (\<forall>c a. EncryptSerialize c a \<notin> set cs))"
    then show "e \<noteq> ValueError" by simp
  next
    fix x :: "string \<times> image" and w1 :: "'s client_world"
    obtain u img where x: "x = (u, img)" by (cases x)
    have "post (bnd (job_preprocess env img) (\<lambda>arr. job_submit env u f arr)) w1
            (\<lambda>e w'. e \<noteq> ValueError) (\<lambda>r w'. r_execution_time r = 0 \<and> r_status r = ''success'')"
    proof (rule post_bnd_seq [OF post_job_preprocess])
      fix e and w' :: "'s client_world"
      assume "e = ImageError \<and> w' = w1"
      then show "e \<noteq> ValueError" by simp
    next
      fix arr :: array and w2 :: "'s client_world"
      show "post (job_submit env u f arr) w2
              (\<lambda>e w'. e \<noteq> ValueError) (\<lambda>r w'. r_execution_time r = 0 \<and> r_status r = ''success'')"
        by (rule post_job_submit_no_header [OF h])
    qed
    with x show "post (case x of (user_id, input_image) \<Rightarrow>
        bnd (job_preprocess env input_image) (\<lambda>input_image_array.
          job_submit env user_id f input_image_array)) w1
        (\<lambda>e w'. e \<noteq> ValueError) (\<lambda>r w'. r_execution_time r = 0 \<and> r_status r = ''success'')"
      by simp
  qed
  then show ?thesis
    unfolding post_fst_snd by (auto split: sum.splits)
qed

text \<open>
  An instance of C10: the example job, whose server answers without the header.
\<close>

theorem missing_time_header_defaults_witness:
  "requests_post demo_client_env ''http://localhost:8000/fhe_full''
     [(''user_id'', ''user-2''), (''filter'', ''identity'')]
     [(''encrypted_image.bin'', ''PNG''), (''evaluation_keys.bin'', ''EVK'')] 2 =
     (Some \<lparr>content = ''CIPHERTEXT'', headers_get = (\<lambda>h. None)\<rparr>, 2) \<and>
   fst (demo_job ''identity'') \<noteq> Inl ValueError \<and>
   fst (demo_job ''identity'') =
     Inr \<lparr>r_user_id = ''user-2'', r_filter_name = ''identity'', r_execution_time = 0,
           r_output_id = ''out-3'', r_status = ''success''\<rparr>"
proof -
  have h: "\<forall>u d fs s r s'. requests_post demo_client_env u d fs s = (Some r, s') \<longrightarrow>
             headers_get r ''X-FHE-Execution-Time'' = None"
    by (auto simp: demo_client_env_def)
  note t = missing_time_header_defaults [OF h, of "''http://example.org/cat.png''"
      "''identity''" demo_client_world, folded demo_job_def]
  have p: "requests_post demo_client_env ''http://localhost:8000/fhe_full''
     [(''user_id'', ''user-2''), (''filter'', ''identity'')]
     [(''encrypted_image.bin'', ''PNG''), (''evaluation_keys.bin'', ''EVK'')] 2 =
     (Some \<lparr>content = ''CIPHERTEXT'', headers_get = (\<lambda>h. None)\<rparr>, 2)"
    by (simp add: demo_client_env_def)
  from t [THEN conjunct1] p show ?thesis by (simp add: demo_job_fields)
qed


end
